theory Spec2Isabelle
  imports Complex_Main "HOL-Library.AList"
begin

section \<open>Data model of the HAZID workshop table\<close>

text \<open>
  The records follow the JSDoc block at the head of the application script:
  Hazard, Cause, Consequence, Measure, Recommendation and Risk. JavaScript values that
  the export code guards against are kept in the types: an entry of \<open>hazard.causes\<close>
  may be null (\<open>cause ? ... : 0\<close>), a measure array may be missing
  (\<open>cause.preventionMeasures || []\<close>), a consequence may have no risk object
  (\<open>cons.risk || {}\<close>) and every field of a risk object may be undefined. All of
  these are \<open>None\<close>. Row numbers and spans are JavaScript numbers holding integers;
  they are \<open>int\<close>, so that \<open>blockRows - causeRowOffset\<close> is a true subtraction.
\<close>

record Measure =
  measure_id :: string
  measure_text :: string

record Cause =
  cause_id :: string
  cause_text :: string
  preventionMeasures :: "Measure list option"

record Risk =
  severityCategory :: "string option"
  severityLevel :: "string option"
  likelihoodLevel :: "string option"
  riskScore :: "string option"

record Consequence =
  cons_id :: string
  cons_text :: string
  mitigationMeasures :: "Measure list option"
  risk :: "Risk option"

record Recommendation =
  reco_id :: string
  reco_action :: string
  reco_responsible :: string

record Hazard =
  hazard_id :: string
  hazard_title :: string
  hazard_description :: string
  causes :: "Cause option list"
  consequences :: "Consequence option list"
  recommendations :: "Recommendation list"

text \<open>JavaScript truthiness of a string-or-undefined value, and \<open>v || ''\<close>.\<close>

fun truthy :: "string option \<Rightarrow> bool" where
  "truthy None = False"
| "truthy (Some s) = (s \<noteq> [])"

fun orEmpty :: "string option \<Rightarrow> string" where
  "orEmpty None = []"
| "orEmpty (Some s) = s"

section \<open>Block row count (exportToExcel)\<close>

text \<open>\<open>(measures || []).length\<close>\<close>

fun arrayLength :: "Measure list option \<Rightarrow> int" where
  "arrayLength None = 0"
| "arrayLength (Some ms) = int (length ms)"

text \<open>\<open>cause ? (cause.preventionMeasures || []).length : 0\<close>\<close>

fun causeMeasureCount :: "Cause option \<Rightarrow> int" where
  "causeMeasureCount None = 0"
| "causeMeasureCount (Some cause) = arrayLength (preventionMeasures cause)"

text \<open>\<open>cons ? (cons.mitigationMeasures || []).length : 0\<close>\<close>

fun consMeasureCount :: "Consequence option \<Rightarrow> int" where
  "consMeasureCount None = 0"
| "consMeasureCount (Some cons) = arrayLength (mitigationMeasures cons)"

text \<open>
  \<open>hazard.causes.reduce((sum, cause) => sum + Math.max(measures, 1), 0)\<close>: a left fold
  from 0.
\<close>

definition totalPreventionMeasures :: "Hazard \<Rightarrow> int" where
  "totalPreventionMeasures hazard =
     fold (\<lambda>cause sum. sum + max (causeMeasureCount cause) 1) (causes hazard) 0"

definition totalMitigationMeasures :: "Hazard \<Rightarrow> int" where
  "totalMitigationMeasures hazard =
     fold (\<lambda>cons sum. sum + max (consMeasureCount cons) 1) (consequences hazard) 0"

text \<open>\<open>Math.max(totalPreventionMeasures, totalMitigationMeasures, 1)\<close>\<close>

definition blockRows :: "Hazard \<Rightarrow> int" where
  "blockRows hazard =
     max (max (totalPreventionMeasures hazard) (totalMitigationMeasures hazard)) 1"

section \<open>Row-span allocation (exportToExcel)\<close>

text \<open>
  The export writes the sheet only through \<open>mergeAndSet(sheet, startRow, col, rowSpan,
  value)\<close>. A \<open>Merge\<close> is one such call. The helper merges the rows from
  \<open>startRow\<close> to \<open>startRow + Math.max(rowSpan, 1) - 1\<close> of the column and
  writes the value into the first of them.
\<close>

record Merge =
  m_row :: int
  m_col :: nat
  m_rowSpan :: int
  m_value :: string

definition mergeEndRow :: "Merge \<Rightarrow> int" where
  "mergeEndRow m = m_row m + max (m_rowSpan m) 1 - 1"

text \<open>
  \<open>measures.forEach((measure, measureIndex) => ...)\<close> inside an item: the measure at
  \<open>measureIndex\<close> goes to row \<open>itemStartRow + measureIndex\<close>; the last one spans
  \<open>itemRows - measureIndex\<close> rows, the others one row.
\<close>

definition measureCells :: "int \<Rightarrow> int \<Rightarrow> nat \<Rightarrow> Measure list \<Rightarrow> Merge list" where
  "measureCells itemStartRow itemRows col measureList =
     map (\<lambda>(measureIndex, measure).
            \<lparr>m_row = itemStartRow + int measureIndex,
             m_col = col,
             m_rowSpan = (if int measureIndex = int (length measureList) - 1
                          then itemRows - int measureIndex else 1),
             m_value = measure_text measure\<rparr>)
         (enumerate 0 measureList)"

text \<open>What one iteration of the cause loop or of the consequence loop writes.\<close>

record ItemOut =
  itemCell :: Merge
  itemMeasureCells :: "Merge list"
  itemRiskCells :: "Merge list"

abbreviation itemStart :: "ItemOut \<Rightarrow> int" where
  "itemStart out \<equiv> m_row (itemCell out)"

abbreviation itemSpan :: "ItemOut \<Rightarrow> int" where
  "itemSpan out \<equiv> m_rowSpan (itemCell out)"

fun causeText :: "Cause option \<Rightarrow> string" where
  "causeText None = []"
| "causeText (Some cause) = cause_text cause"

fun causeMeasureList :: "Cause option \<Rightarrow> Measure list" where
  "causeMeasureList None = []"
| "causeMeasureList (Some cause) = (case preventionMeasures cause of None \<Rightarrow> [] | Some ms \<Rightarrow> ms)"

text \<open>
  \<open>hazard.causes.forEach((cause, causeIndex) => ...)\<close> with the running
  \<open>causeRowOffset\<close>; \<open>n\<close> is \<open>hazard.causes.length\<close> and \<open>bRows\<close> the block's
  row count.
\<close>

fun causeLoop :: "int \<Rightarrow> int \<Rightarrow> nat \<Rightarrow> nat \<Rightarrow> int \<Rightarrow> Cause option list \<Rightarrow> ItemOut list" where
  "causeLoop bRows startRow n causeIndex causeRowOffset [] = []"
| "causeLoop bRows startRow n causeIndex causeRowOffset (cause # rest) =
     (let actualMeasures = causeMeasureCount cause;
          causeRows = (if int causeIndex = int n - 1 then bRows - causeRowOffset
                       else max actualMeasures 1);
          causeStartRow = startRow + causeRowOffset
      in \<lparr>itemCell = \<lparr>m_row = causeStartRow, m_col = 2, m_rowSpan = causeRows,
                        m_value = causeText cause\<rparr>,
          itemMeasureCells =
            (if actualMeasures > 0
             then measureCells causeStartRow causeRows 3 (causeMeasureList cause) else []),
          itemRiskCells = []\<rparr>
         # causeLoop bRows startRow n (Suc causeIndex) (causeRowOffset + causeRows) rest)"

fun consText :: "Consequence option \<Rightarrow> string" where
  "consText None = []"
| "consText (Some cons) = cons_text cons"

fun consMeasureList :: "Consequence option \<Rightarrow> Measure list" where
  "consMeasureList None = []"
| "consMeasureList (Some cons) = (case mitigationMeasures cons of None \<Rightarrow> [] | Some ms \<Rightarrow> ms)"

text \<open>\<open>cons ? cons.risk || {} : {}\<close>: every field of \<open>{}\<close> is undefined.\<close>

definition emptyRisk :: Risk where
  "emptyRisk = \<lparr>severityCategory = None, severityLevel = None, likelihoodLevel = None,
                riskScore = None\<rparr>"

fun consRisk :: "Consequence option \<Rightarrow> Risk" where
  "consRisk None = emptyRisk"
| "consRisk (Some cons) = (case risk cons of None \<Rightarrow> emptyRisk | Some r \<Rightarrow> r)"

text \<open>
  \<open>hazard.consequences.forEach((cons, consIndex) => ...)\<close>: the same allocation, and
  the four risk columns 6 to 9 merged over the consequence's rows. Column 9 receives
  \<open>risk.riskScore || ''\<close>.
\<close>

fun consLoop :: "int \<Rightarrow> int \<Rightarrow> nat \<Rightarrow> nat \<Rightarrow> int \<Rightarrow> Consequence option list \<Rightarrow> ItemOut list" where
  "consLoop bRows startRow n consIndex consRowOffset [] = []"
| "consLoop bRows startRow n consIndex consRowOffset (cons # rest) =
     (let actualMeasures = consMeasureCount cons;
          consRows = (if int consIndex = int n - 1 then bRows - consRowOffset
                      else max actualMeasures 1);
          consStartRow = startRow + consRowOffset;
          risk = consRisk cons
      in \<lparr>itemCell = \<lparr>m_row = consStartRow, m_col = 4, m_rowSpan = consRows,
                        m_value = consText cons\<rparr>,
          itemMeasureCells =
            (if actualMeasures > 0
             then measureCells consStartRow consRows 5 (consMeasureList cons) else []),
          itemRiskCells =
            [\<lparr>m_row = consStartRow, m_col = 6, m_rowSpan = consRows,
              m_value = orEmpty (severityCategory risk)\<rparr>,
             \<lparr>m_row = consStartRow, m_col = 7, m_rowSpan = consRows,
              m_value = orEmpty (severityLevel risk)\<rparr>,
             \<lparr>m_row = consStartRow, m_col = 8, m_rowSpan = consRows,
              m_value = orEmpty (likelihoodLevel risk)\<rparr>,
             \<lparr>m_row = consStartRow, m_col = 9, m_rowSpan = consRows,
              m_value = orEmpty (riskScore risk)\<rparr>]\<rparr>
         # consLoop bRows startRow n (Suc consIndex) (consRowOffset + consRows) rest)"

text \<open>
  The two loops as the export runs them for one hazard whose block starts at sheet row
  \<open>startRow\<close>: offsets start at 0, the index at 0, and the row budget is the hazard's
  own \<open>blockRows\<close>.
\<close>

definition causeCells :: "Hazard \<Rightarrow> int \<Rightarrow> ItemOut list" where
  "causeCells hazard startRow =
     causeLoop (blockRows hazard) startRow (length (causes hazard)) 0 0 (causes hazard)"

definition consCells :: "Hazard \<Rightarrow> int \<Rightarrow> ItemOut list" where
  "consCells hazard startRow =
     consLoop (blockRows hazard) startRow (length (consequences hazard)) 0 0
       (consequences hazard)"

text \<open>
  The arithmetic of the two item loops alone, used to reason about both at once: the
  list holds the measure counts of the items still to come, \<open>i\<close> is the index of the
  first of them and \<open>off\<close> the running offset. Each loop's (offset, span) pairs are
  shown below to be exactly this list.
\<close>

fun spanAlloc :: "int \<Rightarrow> nat \<Rightarrow> nat \<Rightarrow> int \<Rightarrow> int list \<Rightarrow> (int \<times> int) list" where
  "spanAlloc bRows n i off [] = []"
| "spanAlloc bRows n i off (a # rest) =
     (let rows = (if int i = int n - 1 then bRows - off else max a 1)
      in (off, rows) # spanAlloc bRows n (Suc i) (off + rows) rest)"

text \<open>
  What it means for the items of one side to tile the block that starts at
  \<open>startRow\<close> and has \<open>bRows\<close> rows: the spans add up to \<open>bRows\<close>, every span is
  at least one row, the first item starts at \<open>startRow\<close> (offset 0), each further item
  starts where the one before it ended, and the row ranges of two different items do
  not overlap.
\<close>

definition tilesBlock :: "int \<Rightarrow> int \<Rightarrow> ItemOut list \<Rightarrow> bool" where
  "tilesBlock startRow bRows items \<longleftrightarrow>
     (\<Sum>out\<leftarrow>items. itemSpan out) = bRows \<and>
     (\<forall>i < length items. 1 \<le> itemSpan (items ! i)) \<and>
     (items \<noteq> [] \<longrightarrow> itemStart (items ! 0) = startRow) \<and>
     (\<forall>i. Suc i < length items \<longrightarrow>
          itemStart (items ! Suc i) = itemStart (items ! i) + itemSpan (items ! i)) \<and>
     (\<forall>i j. i < j \<and> j < length items \<longrightarrow>
          itemStart (items ! i) + itemSpan (items ! i) \<le> itemStart (items ! j))"

text \<open>
  The hazard of the specification's first scenario: causes A (2 measures) and B
  (1 measure), consequences X (1 measure) and Y (3 measures).
\<close>

definition scenarioHazard :: Hazard where
  "scenarioHazard =
     \<lparr>hazard_id = ''h1'', hazard_title = ''Scenario'', hazard_description = [],
      causes =
        [Some \<lparr>cause_id = ''a'', cause_text = ''A'',
               preventionMeasures = Some [\<lparr>measure_id = ''a1'', measure_text = ''A1''\<rparr>,
                                          \<lparr>measure_id = ''a2'', measure_text = ''A2''\<rparr>]\<rparr>,
         Some \<lparr>cause_id = ''b'', cause_text = ''B'',
               preventionMeasures = Some [\<lparr>measure_id = ''b1'', measure_text = ''B1''\<rparr>]\<rparr>],
      consequences =
        [Some \<lparr>cons_id = ''x'', cons_text = ''X'',
               mitigationMeasures = Some [\<lparr>measure_id = ''x1'', measure_text = ''X1''\<rparr>],
               risk = None\<rparr>,
         Some \<lparr>cons_id = ''y'', cons_text = ''Y'',
               mitigationMeasures = Some [\<lparr>measure_id = ''y1'', measure_text = ''Y1''\<rparr>,
                                          \<lparr>measure_id = ''y2'', measure_text = ''Y2''\<rparr>,
                                          \<lparr>measure_id = ''y3'', measure_text = ''Y3''\<rparr>],
               risk = None\<rparr>],
      recommendations = []\<rparr>"

text \<open>
  The hazard of the specification's second scenario: no causes, one consequence without
  measures.
\<close>

definition bareHazard :: Hazard where
  "bareHazard =
     \<lparr>hazard_id = ''h2'', hazard_title = ''Bare'', hazard_description = [],
      causes = [],
      consequences =
        [Some \<lparr>cons_id = ''z'', cons_text = ''Z'', mitigationMeasures = Some [], risk = None\<rparr>],
      recommendations = []\<rparr>"

text \<open>
  A ragged hazard: three causes with 3 measures, no measure array and 1 measure, and two
  consequences with 2 measures and none. Its block has max(3 + 1 + 1, 2 + 1, 1) = 5 rows.
\<close>

definition raggedHazard :: Hazard where
  "raggedHazard =
     \<lparr>hazard_id = ''h5'', hazard_title = ''Ragged'', hazard_description = [],
      causes =
        [Some \<lparr>cause_id = ''p'', cause_text = ''P'',
               preventionMeasures = Some [\<lparr>measure_id = ''p1'', measure_text = ''P1''\<rparr>,
                                          \<lparr>measure_id = ''p2'', measure_text = ''P2''\<rparr>,
                                          \<lparr>measure_id = ''p3'', measure_text = ''P3''\<rparr>]\<rparr>,
         Some \<lparr>cause_id = ''q'', cause_text = ''Q'', preventionMeasures = None\<rparr>,
         Some \<lparr>cause_id = ''r'', cause_text = ''R'',
               preventionMeasures = Some [\<lparr>measure_id = ''r1'', measure_text = ''R1''\<rparr>]\<rparr>],
      consequences =
        [Some \<lparr>cons_id = ''k'', cons_text = ''K'',
               mitigationMeasures = Some [\<lparr>measure_id = ''k1'', measure_text = ''K1''\<rparr>,
                                          \<lparr>measure_id = ''k2'', measure_text = ''K2''\<rparr>],
               risk = None\<rparr>,
         Some \<lparr>cons_id = ''l'', cons_text = ''L'', mitigationMeasures = Some [], risk = None\<rparr>],
      recommendations = []\<rparr>"

text \<open>
  What it means for the measure cells of an item with \<open>m\<close> measures to fill the item's
  rows. With at least one measure there are \<open>m\<close> cells; every cell but the last spans
  one row, at the item's start row plus its index; the last cell starts at the item's
  start row plus \<open>m - 1\<close>, spans the item's span minus \<open>m - 1\<close>, and its merged
  range ends on the item's last row; the spans add up to the item's span. With no measure
  there is no measure cell, and the item's own merged cell covers the item's whole range.
\<close>

definition measuresFill :: "ItemOut \<Rightarrow> nat \<Rightarrow> bool" where
  "measuresFill out m \<longleftrightarrow>
     (0 < m \<longrightarrow>
        length (itemMeasureCells out) = m \<and>
        (\<forall>k. Suc k < m \<longrightarrow>
           m_row (itemMeasureCells out ! k) = itemStart out + int k \<and>
           m_rowSpan (itemMeasureCells out ! k) = 1) \<and>
        m_row (itemMeasureCells out ! (m - 1)) = itemStart out + int (m - 1) \<and>
        m_rowSpan (itemMeasureCells out ! (m - 1)) = itemSpan out - int (m - 1) \<and>
        mergeEndRow (itemMeasureCells out ! (m - 1)) = itemStart out + itemSpan out - 1 \<and>
        (\<Sum>c\<leftarrow>itemMeasureCells out. m_rowSpan c) = itemSpan out) \<and>
     (m = 0 \<longrightarrow>
        itemMeasureCells out = [] \<and>
        mergeEndRow (itemCell out) = itemStart out + itemSpan out - 1)"

text \<open>
  The on-screen counterpart of the measure cells, \<open>renderMeasureStack\<close>, for an owner
  that exists: a missing measure array is replaced by \<open>[]\<close>, the stack is a grid of
  \<open>Math.max(length, 1)\<close> equal rows filling the item's segment, and it holds a single
  segment with the add button when there is no measure, one segment per measure
  otherwise.
\<close>

datatype StackSegment = AddSegment | MeasureSegment Measure

record MeasureStack =
  stack_rows :: int
  stack_segments :: "StackSegment list"

definition renderMeasureStack :: "Measure list option \<Rightarrow> MeasureStack" where
  "renderMeasureStack owned =
     (let ms = (case owned of None \<Rightarrow> [] | Some ms \<Rightarrow> ms);
          count = max (int (length ms)) 1
      in if length ms = 0 then \<lparr>stack_rows = count, stack_segments = [AddSegment]\<rparr>
         else \<lparr>stack_rows = count, stack_segments = map MeasureSegment ms\<rparr>)"

section \<open>Risk matrix\<close>

text \<open>
  \<open>state.riskMatrix\<close>: the ordered likelihood and severity levels, the severity
  descriptions, the ordered risk levels and the matrix object. A JavaScript object is an
  association list of its own properties in insertion order; \<open>obj[key]\<close> is
  \<open>map_of obj key\<close> and \<open>obj[key] = v\<close> is \<open>AList.update key v obj\<close>, which
  overwrites in place or appends. A matrix cell holds a risk level or \<open>undefined\<close>
  (\<open>None\<close>), which is what \<open>riskLevels[2]\<close> gives on a list of fewer than three
  levels.
\<close>

record LikelihoodEntry =
  lik_id :: string
  lik_label :: string
  lik_description :: string

record SeverityEntry =
  sev_id :: string
  sev_label :: string
  sev_description :: string
  sev_category :: string

record RiskLevel =
  rl_id :: string
  rl_label :: string
  rl_color :: string

record RiskMatrix =
  likelihood :: "LikelihoodEntry list"
  severity :: "SeverityEntry list"
  severityDescriptions :: "(string \<times> (string \<times> string) list) list"
  riskLevels :: "RiskLevel list"
  matrix :: "(string \<times> RiskLevel option) list"

text \<open>\<open>xs[i]\<close> on an array: undefined out of range.\<close>

definition arrayAt :: "'a list \<Rightarrow> nat \<Rightarrow> 'a option" where
  "arrayAt xs i = (if i < length xs then Some (xs ! i) else None)"

text \<open>The template literal \<open>`${likelihoodLevel}-${severityLevel}`\<close>.\<close>

definition matrixKey :: "string \<Rightarrow> string \<Rightarrow> string" where
  "matrixKey likelihoodId severityId = likelihoodId @ ''-'' @ severityId"

text \<open>
  \<open>riskSum / maxSum\<close> is a division of two integer-valued doubles. It does not throw:
  \<open>0 / 0\<close> is NaN and \<open>x / 0\<close> is an infinity. A finite quotient is kept as the exact
  rational. The comparisons with the literals 0.7 and 0.4 are then comparisons with 7/10
  and 4/10: rounding to double is monotone, the literals are the doubles nearest to 7/10
  and 4/10, and a quotient of integers \<open>a / b\<close> that is not equal to 7/10 (or 4/10)
  differs from it by at least \<open>1 / (10 * b)\<close>, which is far more than the spacing of
  doubles below 1 for every \<open>b\<close> that two array lengths (below \<open>2 ^ 32\<close>) can add up
  to; so the rounded comparison and the exact one agree. Every comparison with NaN is
  false.
\<close>

datatype JsNumber = NaN | PosInfinity | NegInfinity | Finite rat

definition jsDivide :: "int \<Rightarrow> int \<Rightarrow> JsNumber" where
  "jsDivide a b =
     (if b = 0 then (if a = 0 then NaN else if 0 < a then PosInfinity else NegInfinity)
      else Finite (of_int a / of_int b))"

fun jsGe :: "JsNumber \<Rightarrow> rat \<Rightarrow> bool" where
  "jsGe NaN c = False"
| "jsGe PosInfinity c = True"
| "jsGe NegInfinity c = False"
| "jsGe (Finite r) c = (c \<le> r)"

text \<open>The body of the inner callback of \<open>updateRiskMatrix\<close>, up to the assignment.\<close>

definition maxSum :: "RiskMatrix \<Rightarrow> int" where
  "maxSum rm = (int (length (likelihood rm)) - 1) + (int (length (severity rm)) - 1)"

definition riskRatio :: "RiskMatrix \<Rightarrow> nat \<Rightarrow> nat \<Rightarrow> JsNumber" where
  "riskRatio rm li si = jsDivide (int li + int si) (maxSum rm)"

definition defaultLevel :: "RiskMatrix \<Rightarrow> nat \<Rightarrow> nat \<Rightarrow> RiskLevel option" where
  "defaultLevel rm li si =
     (if jsGe (riskRatio rm li si) (7 / 10) then arrayAt (riskLevels rm) 2
      else if jsGe (riskRatio rm li si) (4 / 10) then arrayAt (riskLevels rm) 1
      else arrayAt (riskLevels rm) 0)"

text \<open>
  \<open>updateRiskMatrix\<close>: the matrix is reset to \<open>{}\<close> and filled by the two nested
  \<open>forEach\<close> loops, likelihood outside, severity inside.
\<close>

definition updateRiskMatrix :: "RiskMatrix \<Rightarrow> RiskMatrix" where
  "updateRiskMatrix rm =
     rm\<lparr>matrix :=
          fold (\<lambda>(li, lik) m.
                  fold (\<lambda>(si, sev) m'.
                          AList.update (matrixKey (lik_id lik) (sev_id sev))
                            (defaultLevel rm li si) m')
                       (enumerate 0 (severity rm)) m)
               (enumerate 0 (likelihood rm)) []\<rparr>"

text \<open>
  The three lookups. The guard \<open>!severityLevel || !likelihoodLevel\<close> is evaluated left
  to right. \<open>riskLevel ? riskLevel.label : ''\<close> takes the else branch for a missing key
  and for a cell holding undefined. No operation in them can throw on a
  state whose matrix is an object, which it always is: it starts as \<open>{}\<close> and is only
  ever replaced by \<open>{}\<close> and filled.
\<close>

definition computeRiskScore :: "RiskMatrix \<Rightarrow> string option \<Rightarrow> string option \<Rightarrow> string" where
  "computeRiskScore rm severityLvl likelihoodLvl =
     (if \<not> truthy severityLvl then []
      else if \<not> truthy likelihoodLvl then []
      else (case map_of (matrix rm) (matrixKey (orEmpty likelihoodLvl) (orEmpty severityLvl)) of
              Some (Some riskLevel) \<Rightarrow> rl_label riskLevel
            | _ \<Rightarrow> []))"

definition getRiskLevelColor :: "RiskMatrix \<Rightarrow> string option \<Rightarrow> string option \<Rightarrow> string" where
  "getRiskLevelColor rm severityLvl likelihoodLvl =
     (if \<not> truthy severityLvl then []
      else if \<not> truthy likelihoodLvl then []
      else (case map_of (matrix rm) (matrixKey (orEmpty likelihoodLvl) (orEmpty severityLvl)) of
              Some (Some riskLevel) \<Rightarrow> rl_color riskLevel
            | _ \<Rightarrow> []))"

definition getRiskLevel :: "RiskMatrix \<Rightarrow> string option \<Rightarrow> string option \<Rightarrow> string" where
  "getRiskLevel rm severityLvl likelihoodLvl =
     (if \<not> truthy severityLvl then []
      else if \<not> truthy likelihoodLvl then []
      else (case map_of (matrix rm) (matrixKey (orEmpty likelihoodLvl) (orEmpty severityLvl)) of
              Some (Some riskLevel) \<Rightarrow> rl_label riskLevel
            | _ \<Rightarrow> []))"

text \<open>The initial \<open>state.riskMatrix\<close>, which is also what \<open>loadDefaultRiskMatrix\<close> installs.\<close>

definition defaultRiskMatrix :: RiskMatrix where
  "defaultRiskMatrix =
     \<lparr>likelihood =
        [\<lparr>lik_id = ''A'', lik_label = ''A'', lik_description = ''Very unlikely''\<rparr>,
         \<lparr>lik_id = ''B'', lik_label = ''B'', lik_description = ''Unlikely''\<rparr>,
         \<lparr>lik_id = ''C'', lik_label = ''C'', lik_description = ''Possible''\<rparr>,
         \<lparr>lik_id = ''D'', lik_label = ''D'', lik_description = ''Likely''\<rparr>,
         \<lparr>lik_id = ''E'', lik_label = ''E'', lik_description = ''Very likely''\<rparr>],
      severity =
        [\<lparr>sev_id = ''1'', sev_label = ''1'', sev_description = ''Negligible effect'',
          sev_category = ''personnel''\<rparr>,
         \<lparr>sev_id = ''2'', sev_label = ''2'', sev_description = ''Minor effect'',
          sev_category = ''personnel''\<rparr>,
         \<lparr>sev_id = ''3'', sev_label = ''3'', sev_description = ''Moderate effect'',
          sev_category = ''personnel''\<rparr>,
         \<lparr>sev_id = ''4'', sev_label = ''4'', sev_description = ''Major effect'',
          sev_category = ''personnel''\<rparr>,
         \<lparr>sev_id = ''5'', sev_label = ''5'', sev_description = ''Severest effect'',
          sev_category = ''personnel''\<rparr>],
      severityDescriptions =
        [(''1'', [(''personnel'', ''Minor injury, no lost time''),
                  (''asset'', ''Minor damage, easily repairable''),
                  (''environmental'', ''Minimal environmental impact''),
                  (''reputation'', ''No reputation impact''),
                  (''operation'', ''No operational impact'')]),
         (''2'', [(''personnel'', ''Minor injury, some lost time''),
                  (''asset'', ''Moderate damage, repairable''),
                  (''environmental'', ''Minor environmental impact''),
                  (''reputation'', ''Minor local reputation impact''),
                  (''operation'', ''Minor operational disruption'')]),
         (''3'', [(''personnel'', ''Serious injury, significant lost time''),
                  (''asset'', ''Major damage, expensive repair''),
                  (''environmental'', ''Moderate environmental impact''),
                  (''reputation'', ''Moderate reputation impact''),
                  (''operation'', ''Moderate operational disruption'')]),
         (''4'', [(''personnel'', ''Major injury, permanent disability''),
                  (''asset'', ''Severe damage, major repair cost''),
                  (''environmental'', ''Major environmental impact''),
                  (''reputation'', ''Major reputation impact''),
                  (''operation'', ''Major operational disruption'')]),
         (''5'', [(''personnel'', ''Multiple fatalities''),
                  (''asset'', ''Total loss of facility''),
                  (''environmental'', ''Permanent environmental damage''),
                  (''reputation'', ''Major international effect''),
                  (''operation'', ''Loss of operation up to a year'')])],
      riskLevels =
        [\<lparr>rl_id = ''low'', rl_label = ''Low'', rl_color = ''#28a745''\<rparr>,
         \<lparr>rl_id = ''medium'', rl_label = ''Medium'', rl_color = ''#ffc107''\<rparr>,
         \<lparr>rl_id = ''high'', rl_label = ''High'', rl_color = ''#dc3545''\<rparr>],
      matrix = []\<rparr>"

text \<open>
  The keys that \<open>updateRiskMatrix\<close> writes, in the order it writes them. Two different
  (likelihood, severity) pairs address different cells exactly when this list is distinct.
\<close>

definition matrixKeys :: "RiskMatrix \<Rightarrow> string list" where
  "matrixKeys rm =
     concat (map (\<lambda>lik. map (\<lambda>sev. matrixKey (lik_id lik) (sev_id sev)) (severity rm))
                 (likelihood rm))"

text \<open>
  The assignments \<open>matrix[key] = riskLevel\<close> that the nested loops of
  \<open>updateRiskMatrix\<close> perform, in the order they perform them; the regenerated matrix
  is shown below to be the result of running them on \<open>{}\<close>.
\<close>

definition assignments :: "RiskMatrix \<Rightarrow> (string \<times> RiskLevel option) list" where
  "assignments rm =
     concat (map (\<lambda>(li, lik).
                    map (\<lambda>(si, sev). (matrixKey (lik_id lik) (sev_id sev), defaultLevel rm li si))
                        (enumerate 0 (severity rm)))
                 (enumerate 0 (likelihood rm)))"

text \<open>
  The default configuration cut down to one likelihood level and one severity level.
\<close>

definition singleCellMatrix :: RiskMatrix where
  "singleCellMatrix =
     defaultRiskMatrix
       \<lparr>likelihood := [\<lparr>lik_id = ''A'', lik_label = ''A'', lik_description = ''Very unlikely''\<rparr>],
        severity := [\<lparr>sev_id = ''1'', sev_label = ''1'', sev_description = ''Negligible effect'',
                      sev_category = ''personnel''\<rparr>]\<rparr>"

section \<open>Risk matrix export and import\<close>

text \<open>
  The risk-matrix configuration document, as \<open>JSON.parse\<close> delivers it. A field is
  \<open>None\<close> when the tests of \<open>loadRiskMatrixFromJSON\<close> reject it: absent, falsy or,
  for the two lists, not an array. The document travels as JSON text between export and
  import; \<open>JSON.parse (JSON.stringify doc)\<close> gives back an equal document for the
  strings, numbers, arrays and plain objects it is made of, so the model hands the
  document over as it is.
\<close>

record RiskMatrixDoc =
  doc_likelihoodLevels :: "nat option"
  doc_likelihoodDescriptions :: "LikelihoodEntry list option"
  doc_severityCategories :: "string list option"
  doc_severityDescriptions :: "(string \<times> (string \<times> string) list) list option"
  doc_riskLevels :: "nat option"
  doc_riskLevelDescriptions :: "RiskLevel list option"
  doc_matrix :: "(string \<times> string) list option"

datatype JsError = TypeError | SyntaxError | QuotaExceededError

text \<open>
  \<open>Object.entries(state.riskMatrix.matrix).map(([key, riskLevel]) => [key,
  riskLevel.id])\<close>: reading \<open>.id\<close> of a cell that holds undefined throws a TypeError,
  which nothing in the click handler catches.
\<close>

fun exportEntries :: "(string \<times> RiskLevel option) list \<Rightarrow> JsError + (string \<times> string) list" where
  "exportEntries [] = Inr []"
| "exportEntries ((key, riskLevel) # rest) =
     (case riskLevel of
        None \<Rightarrow> Inl TypeError
      | Some rl \<Rightarrow>
          (case exportEntries rest of
             Inl e \<Rightarrow> Inl e
           | Inr entries \<Rightarrow> Inr ((key, rl_id rl) # entries)))"

text \<open>\<open>Object.fromEntries\<close>: the properties are set one after the other.\<close>

definition fromEntries :: "(string \<times> 'v) list \<Rightarrow> (string \<times> 'v) list" where
  "fromEntries entries = fold (\<lambda>(key, v) obj. AList.update key v obj) entries []"

text \<open>The \<open>config\<close> object built by the click handler of \<open>export-risk-matrix\<close>.\<close>

definition exportRiskMatrix :: "RiskMatrix \<Rightarrow> JsError + RiskMatrixDoc" where
  "exportRiskMatrix rm =
     (case exportEntries (matrix rm) of
        Inl e \<Rightarrow> Inl e
      | Inr entries \<Rightarrow>
          Inr \<lparr>doc_likelihoodLevels = Some (length (likelihood rm)),
               doc_likelihoodDescriptions =
                 Some (map (\<lambda>l. \<lparr>lik_id = lik_id l, lik_label = lik_label l,
                                   lik_description = lik_description l\<rparr>) (likelihood rm)),
               doc_severityCategories =
                 Some [''personnel'', ''asset'', ''environmental'', ''reputation'', ''operation''],
               doc_severityDescriptions = Some (severityDescriptions rm),
               doc_riskLevels = Some (length (riskLevels rm)),
               doc_riskLevelDescriptions =
                 Some (map (\<lambda>r. \<lparr>rl_id = rl_id r, rl_label = rl_label r, rl_color = rl_color r\<rparr>)
                           (riskLevels rm)),
               doc_matrix = Some (fromEntries entries)\<rparr>)"

text \<open>
  The assignment \<open>obj[key] = v\<close> on a plain object with an object \<open>v\<close>. For the key
  \<open>__proto__\<close> it runs the inherited setter: the object gets \<open>v\<close> as its prototype
  and no own property. The prototype is not part of the model, because nothing reads it:
  a risk level has the properties id, label and color, every lookup in the matrix uses a
  key that contains a hyphen, and \<open>Object.entries\<close> lists own properties only. For every
  other key the property is written. The keys that \<open>updateRiskMatrix\<close> writes contain a
  hyphen, so its assignments are of the second kind. A parsed JSON document can have
  \<open>__proto__\<close> as an own key.
\<close>

definition jsAssign :: "string \<Rightarrow> 'v \<Rightarrow> (string \<times> 'v) list \<Rightarrow> (string \<times> 'v) list" where
  "jsAssign key v obj = (if key = ''__proto__'' then obj else AList.update key v obj)"

text \<open>
  \<open>loadRiskMatrixFromJSON(data)\<close>: the three guarded list assignments, then the
  matrix, rebuilt from \<open>data.matrix\<close> by looking every risk-level id up in the risk
  levels now in the state (\<open>Array.prototype.find\<close>, first match), or regenerated when
  the document has no matrix.
\<close>

definition loadRiskMatrixFromJSON :: "RiskMatrixDoc \<Rightarrow> RiskMatrix \<Rightarrow> RiskMatrix" where
  "loadRiskMatrixFromJSON data rm =
     (let rm1 = (case doc_likelihoodDescriptions data of
                   Some ls \<Rightarrow>
                     rm\<lparr>likelihood :=
                          map (\<lambda>l. \<lparr>lik_id = lik_id l, lik_label = lik_label l,
                                     lik_description = lik_description l\<rparr>) ls\<rparr>
                 | None \<Rightarrow> rm);
          rm2 = (case doc_severityDescriptions data of
                   Some sd \<Rightarrow> rm1\<lparr>severityDescriptions := sd\<rparr>
                 | None \<Rightarrow> rm1);
          rm3 = (case doc_riskLevelDescriptions data of
                   Some rs \<Rightarrow>
                     rm2\<lparr>riskLevels :=
                           map (\<lambda>r. \<lparr>rl_id = rl_id r, rl_label = rl_label r,
                                      rl_color = rl_color r\<rparr>) rs\<rparr>
                 | None \<Rightarrow> rm2)
      in case doc_matrix data of
           Some entries \<Rightarrow>
             rm3\<lparr>matrix :=
                   fold (\<lambda>(key, riskLevelId) m.
                           (case find (\<lambda>r. rl_id r = riskLevelId) (riskLevels rm3) of
                              Some riskLevel \<Rightarrow> jsAssign key (Some riskLevel) m
                            | None \<Rightarrow> m))
                        entries []\<rparr>
         | None \<Rightarrow> updateRiskMatrix rm3)"

text \<open>
  A two-by-two configuration with the default risk levels, and two documents an import
  can receive: one whose matrix names a risk level that its own list does not have, one
  without a matrix.
\<close>

definition smallMatrix :: RiskMatrix where
  "smallMatrix =
     defaultRiskMatrix
       \<lparr>likelihood := [\<lparr>lik_id = ''A'', lik_label = ''A'', lik_description = ''Very unlikely''\<rparr>,
                       \<lparr>lik_id = ''B'', lik_label = ''B'', lik_description = ''Unlikely''\<rparr>],
        severity := [\<lparr>sev_id = ''1'', sev_label = ''1'', sev_description = ''Negligible effect'',
                      sev_category = ''personnel''\<rparr>,
                     \<lparr>sev_id = ''2'', sev_label = ''2'', sev_description = ''Minor effect'',
                      sev_category = ''personnel''\<rparr>]\<rparr>"

definition danglingDoc :: RiskMatrixDoc where
  "danglingDoc =
     \<lparr>doc_likelihoodLevels = None, doc_likelihoodDescriptions = None,
      doc_severityCategories = None, doc_severityDescriptions = None,
      doc_riskLevels = None,
      doc_riskLevelDescriptions =
        Some [\<lparr>rl_id = ''low'', rl_label = ''Low'', rl_color = ''#28a745''\<rparr>,
              \<lparr>rl_id = ''high'', rl_label = ''High'', rl_color = ''#dc3545''\<rparr>],
      doc_matrix = Some [(''A-1'', ''low''), (''A-2'', ''extreme''), (''B-1'', ''high'')]\<rparr>"

definition matrixlessDoc :: RiskMatrixDoc where
  "matrixlessDoc =
     \<lparr>doc_likelihoodLevels = None, doc_likelihoodDescriptions = None,
      doc_severityCategories = None, doc_severityDescriptions = None,
      doc_riskLevels = None, doc_riskLevelDescriptions = None, doc_matrix = None\<rparr>"

text \<open>
  Three more inputs of the import and export: a document with an entry under the key
  \<open>__proto__\<close>, the two-by-two configuration with three risk levels that share one id,
  and the same configuration with only two risk levels.
\<close>

definition protoDoc :: RiskMatrixDoc where
  "protoDoc =
     \<lparr>doc_likelihoodLevels = None, doc_likelihoodDescriptions = None,
      doc_severityCategories = None, doc_severityDescriptions = None,
      doc_riskLevels = None, doc_riskLevelDescriptions = None,
      doc_matrix = Some [(''__proto__'', ''low''), (''A-1'', ''high'')]\<rparr>"

definition sharedIdMatrix :: RiskMatrix where
  "sharedIdMatrix =
     smallMatrix
       \<lparr>riskLevels := [\<lparr>rl_id = ''x'', rl_label = ''Low'', rl_color = ''#28a745''\<rparr>,
                       \<lparr>rl_id = ''x'', rl_label = ''Medium'', rl_color = ''#ffc107''\<rparr>,
                       \<lparr>rl_id = ''x'', rl_label = ''High'', rl_color = ''#dc3545''\<rparr>]\<rparr>"

definition twoLevelMatrix :: RiskMatrix where
  "twoLevelMatrix =
     smallMatrix
       \<lparr>riskLevels := [\<lparr>rl_id = ''low'', rl_label = ''Low'', rl_color = ''#28a745''\<rparr>,
                       \<lparr>rl_id = ''high'', rl_label = ''High'', rl_color = ''#dc3545''\<rparr>]\<rparr>"

text \<open>
  What regeneration and import establish about \<open>state.riskMatrix.matrix\<close>: its keys are
  pairwise distinct own properties, none of them is \<open>__proto__\<close>, and every cell that holds
  a risk level holds an element of \<open>state.riskMatrix.riskLevels\<close>.
\<close>

definition wellformedMatrix :: "RiskMatrix \<Rightarrow> bool" where
  "wellformedMatrix rm \<longleftrightarrow>
     distinct (map fst (matrix rm)) \<and> ''__proto__'' \<notin> fst ` set (matrix rm) \<and>
     (\<forall>(k, v) \<in> set (matrix rm). \<forall>r. v = Some r \<longrightarrow> r \<in> set (riskLevels rm))"

section \<open>Risk columns of the export\<close>





text \<open>
  What rendering the table writes back into the hazards. \<open>renderRiskField\<close> with
  \<open>isComputed\<close>, the on-screen Risk column, creates the risk object of a consequence
  that has none and stores \<open>computeRiskScore(risk.severityLevel, risk.likelihoodLevel)\<close>
  into \<open>risk.riskScore\<close>, whatever that field held. \<open>renderMeasureStack\<close> replaces a
  missing measure array of an existing cause or consequence by \<open>[]\<close>. Null entries
  are left alone. \<open>renderTable\<close> does this for every cause and consequence of every
  hazard.
\<close>

definition blankRisk :: Risk where
  "blankRisk = \<lparr>severityCategory = Some [], severityLevel = Some [], likelihoodLevel = Some [],
                riskScore = Some []\<rparr>"

definition renderRiskField :: "RiskMatrix \<Rightarrow> Consequence \<Rightarrow> Consequence" where
  "renderRiskField rm consequence =
     (let r = (case risk consequence of Some r \<Rightarrow> r | None \<Rightarrow> blankRisk)
      in consequence\<lparr>risk :=
           Some (r\<lparr>riskScore := Some (computeRiskScore rm (severityLevel r) (likelihoodLevel r))\<rparr>)\<rparr>)"

fun renderCause :: "Cause option \<Rightarrow> Cause option" where
  "renderCause None = None"
| "renderCause (Some cause) =
     Some (cause\<lparr>preventionMeasures :=
                   Some (case preventionMeasures cause of None \<Rightarrow> [] | Some ms \<Rightarrow> ms)\<rparr>)"

fun renderConsequence :: "RiskMatrix \<Rightarrow> Consequence option \<Rightarrow> Consequence option" where
  "renderConsequence rm None = None"
| "renderConsequence rm (Some consequence) =
     Some (renderRiskField rm
             (consequence\<lparr>mitigationMeasures :=
                            Some (case mitigationMeasures consequence of
                                    None \<Rightarrow> [] | Some ms \<Rightarrow> ms)\<rparr>))"

definition renderHazard :: "RiskMatrix \<Rightarrow> Hazard \<Rightarrow> Hazard" where
  "renderHazard rm hazard =
     hazard\<lparr>causes := map renderCause (causes hazard),
            consequences := map (renderConsequence rm) (consequences hazard)\<rparr>"

definition renderTable :: "RiskMatrix \<Rightarrow> Hazard list \<Rightarrow> Hazard list" where
  "renderTable rm hazardList = map (renderHazard rm) hazardList"





section \<open>Persistence and initialisation\<close>

text \<open>
  What \<open>localStorage\<close> holds under the application's key is text. The text is either
  the JSON text of a value, the empty string, or text that \<open>JSON.parse\<close> rejects.
  \<open>JSON.stringify\<close> of a value made of strings, numbers, booleans, arrays and plain
  objects is text that parses back to an equal value, so a JSON text is represented by
  the value it denotes. The values of interest are a bare array of hazards (the legacy
  format), a document object with the fields that \<open>init\<close> reads, and anything else.
  \<open>setItem\<close> throws when the quota is exceeded.
\<close>

record HazardDocument =
  hd_hazards :: "Hazard list option"
  hd_riskMatrix :: "RiskMatrix option"
  hd_compactMode :: "bool option"
  hd_bowtieColors :: "string option"

datatype Saved = SavedArray "Hazard list" | SavedDocument HazardDocument | SavedOther

datatype StoredText = JsonText Saved | EmptyText | BrokenText

record LocalStorage =
  item :: "StoredText option"
  quotaExceeded :: bool

definition jsonParse :: "StoredText \<Rightarrow> JsError + Saved" where
  "jsonParse raw = (case raw of JsonText data \<Rightarrow> Inr data | _ \<Rightarrow> Inl SyntaxError)"

definition setItem :: "StoredText \<Rightarrow> LocalStorage \<Rightarrow> JsError + LocalStorage" where
  "setItem raw storage =
     (if quotaExceeded storage then Inl QuotaExceededError else Inr (storage\<lparr>item := Some raw\<rparr>))"

text \<open>
  \<open>persist.load\<close>: \<open>if (!raw) return []\<close> covers a missing item and the empty string;
  the \<open>catch\<close> returns \<open>[]\<close>; and \<open>Array.isArray(data) ? data : []\<close> returns \<open>[]\<close>
  for every parsed value that is not an array.
\<close>

definition persist_load :: "LocalStorage \<Rightarrow> Saved" where
  "persist_load storage =
     (case item storage of
        None \<Rightarrow> SavedArray []
      | Some EmptyText \<Rightarrow> SavedArray []
      | Some raw \<Rightarrow>
          (case jsonParse raw of
             Inl e \<Rightarrow> SavedArray []
           | Inr data \<Rightarrow> (case data of SavedArray hs \<Rightarrow> SavedArray hs | _ \<Rightarrow> SavedArray [])))"

text \<open>
  \<open>persist.save\<close>: the \<open>catch\<close> logs and returns normally, leaving the storage as it
  was.
\<close>

definition persist_save :: "Saved \<Rightarrow> LocalStorage \<Rightarrow> JsError + LocalStorage" where
  "persist_save payload storage =
     (case setItem (JsonText payload) storage of
        Inl e \<Rightarrow> Inr storage
      | Inr storage' \<Rightarrow> Inr storage')"

record AppState =
  st_hazards :: "Hazard list"
  st_autosave :: bool
  st_compactMode :: bool
  st_bowtieColors :: "string option"
  st_riskMatrix :: RiskMatrix

definition initialState :: AppState where
  "initialState =
     \<lparr>st_hazards = [], st_autosave = True, st_compactMode = False, st_bowtieColors = None,
      st_riskMatrix = defaultRiskMatrix\<rparr>"

text \<open>
  \<open>scheduleSave\<close>: with autosave on, the whole document object is handed to
  \<open>persist.save\<close>. Every other call of \<open>persist.save\<close> in the application passes an
  object \<open>{ hazards, riskMatrix }\<close> as well; none passes an array.
\<close>

definition stateDocument :: "AppState \<Rightarrow> Saved" where
  "stateDocument st =
     SavedDocument \<lparr>hd_hazards = Some (st_hazards st), hd_riskMatrix = Some (st_riskMatrix st),
                    hd_compactMode = Some (st_compactMode st),
                    hd_bowtieColors = st_bowtieColors st\<rparr>"

definition scheduleSave :: "AppState \<Rightarrow> LocalStorage \<Rightarrow> JsError + LocalStorage" where
  "scheduleSave st storage =
     (if st_autosave st then persist_save (stateDocument st) storage else Inr storage)"

text \<open>
  \<open>init\<close>, as far as the state goes: the saved value is restored, an empty hazard list
  gets the starter hazard, the matrix is regenerated and the table is rendered, which
  writes back as described above. The four identifiers of the starter hazard come from
  \<open>generateId\<close>, which draws them at random; they are parameters here. Spreading a
  saved risk matrix over the current one replaces every field, since a saved risk matrix
  has them all.

  \<open>rerender\<close> is the state effect of the callback that \<open>scheduleSaveAndRerender\<close>
  queues with \<open>setTimeout(..., 0)\<close>. Every handler that changes a hazard, a level of a
  consequence or the risk matrix ends by calling \<open>scheduleSaveAndRerender\<close>, so the
  callback has run before a later click, such as the one that starts the export, is
  handled.
\<close>

definition rerender :: "AppState \<Rightarrow> AppState" where
  "rerender st = st\<lparr>st_hazards := renderTable (st_riskMatrix st) (st_hazards st)\<rparr>"

definition restoreSaved :: "Saved \<Rightarrow> AppState \<Rightarrow> AppState" where
  "restoreSaved saved st =
     (case saved of
        SavedDocument d \<Rightarrow>
          (case hd_hazards d of
             Some hs \<Rightarrow>
               (let st1 = st\<lparr>st_hazards := hs\<rparr>;
                    st2 = (case hd_riskMatrix d of
                             Some rm \<Rightarrow> st1\<lparr>st_riskMatrix := rm\<rparr> | None \<Rightarrow> st1);
                    st3 = (case hd_compactMode d of
                             Some b \<Rightarrow> st2\<lparr>st_compactMode := b\<rparr> | None \<Rightarrow> st2)
                in (case hd_bowtieColors d of
                      Some c \<Rightarrow> st3\<lparr>st_bowtieColors := Some c\<rparr> | None \<Rightarrow> st3))
           | None \<Rightarrow> st)
      | SavedArray hs \<Rightarrow> st\<lparr>st_hazards := hs\<rparr>
      | SavedOther \<Rightarrow> st)"

definition starterHazard :: "string \<Rightarrow> string \<Rightarrow> string \<Rightarrow> string \<Rightarrow> Hazard" where
  "starterHazard hid cid kid rid =
     \<lparr>hazard_id = hid, hazard_title = ''New hazard'', hazard_description = [],
      causes = [Some \<lparr>cause_id = cid, cause_text = [], preventionMeasures = Some []\<rparr>],
      consequences =
        [Some \<lparr>cons_id = kid, cons_text = [], mitigationMeasures = Some [],
               risk = Some blankRisk\<rparr>],
      recommendations = [\<lparr>reco_id = rid, reco_action = [], reco_responsible = []\<rparr>]\<rparr>"

definition init :: "LocalStorage \<Rightarrow> string \<Rightarrow> string \<Rightarrow> string \<Rightarrow> string \<Rightarrow> AppState \<Rightarrow> AppState" where
  "init storage hid cid kid rid st =
     (let saved = persist_load storage;
          st1 = restoreSaved saved st;
          st2 = (if st_hazards st1 = []
                 then st1\<lparr>st_hazards := [starterHazard hid cid kid rid]\<rparr> else st1)
      in rerender (st2\<lparr>st_riskMatrix := updateRiskMatrix (st_riskMatrix st2)\<rparr>))"

text \<open>
  A session: the scenario hazard and the regenerated two-by-two matrix are in the state,
  autosave stores them into an empty storage with room left, and the page is loaded
  again.
\<close>

definition emptyStorage :: LocalStorage where
  "emptyStorage = \<lparr>item = None, quotaExceeded = False\<rparr>"

definition workingState :: AppState where
  "workingState =
     initialState\<lparr>st_hazards := [scenarioHazard], st_riskMatrix := updateRiskMatrix smallMatrix\<rparr>"

section \<open>Facts about the row count\<close>

lemma fold_add_max_sum:
  "fold (\<lambda>x sum. sum + max (f x) 1) xs (acc::int) = acc + (\<Sum>x\<leftarrow>xs. max (f x) 1)"
  by (induction xs arbitrary: acc) simp_all

lemma totalPreventionMeasures_sum:
  "totalPreventionMeasures hazard = (\<Sum>cause\<leftarrow>causes hazard. max (causeMeasureCount cause) 1)"
  by (simp add: totalPreventionMeasures_def fold_add_max_sum)

lemma totalMitigationMeasures_sum:
  "totalMitigationMeasures hazard = (\<Sum>cons\<leftarrow>consequences hazard. max (consMeasureCount cons) 1)"
  by (simp add: totalMitigationMeasures_def fold_add_max_sum)

lemma causeMeasureCount_fields:
  "causeMeasureCount cause
     = (case cause of None \<Rightarrow> 0
        | Some c \<Rightarrow> (case preventionMeasures c of None \<Rightarrow> 0 | Some ms \<Rightarrow> int (length ms)))"
  by (cases cause) (simp_all split: option.splits)

lemma consMeasureCount_fields:
  "consMeasureCount cons
     = (case cons of None \<Rightarrow> 0
        | Some c \<Rightarrow> (case mitigationMeasures c of None \<Rightarrow> 0 | Some ms \<Rightarrow> int (length ms)))"
  by (cases cons) (simp_all split: option.splits)

lemma blockRows_counts:
  "blockRows hazard =
     max (max (\<Sum>cause\<leftarrow>causes hazard. max (causeMeasureCount cause) 1)
              (\<Sum>cons\<leftarrow>consequences hazard. max (consMeasureCount cons) 1)) 1
   \<and> totalPreventionMeasures hazard = (\<Sum>cause\<leftarrow>causes hazard. max (causeMeasureCount cause) 1)
   \<and> totalMitigationMeasures hazard = (\<Sum>cons\<leftarrow>consequences hazard. max (consMeasureCount cons) 1)"
  by (simp add: blockRows_def totalPreventionMeasures_sum totalMitigationMeasures_sum)

lemmas hazard_simps =
  blockRows_def totalPreventionMeasures_def totalMitigationMeasures_def

text \<open>
  Claim C1. The row count of a hazard's block is the maximum of three numbers: the sum
  over its causes of max(number of prevention measures, 1), the sum over its
  consequences of max(number of mitigation measures, 1), and 1, where the number of
  measures is the length of the item's measure array (0 for a null item or a missing
  array). A hazard without causes has prevention total 0, one without consequences has
  mitigation total 0, and the row count is at least 1. The scenario hazard has totals 3
  and 4 and 4 rows, the bare hazard totals 0 and 1 and 1 row, the ragged hazard totals 5
  and 3 and 5 rows.
\<close>

theorem C1_blockRows:
  "blockRows hazard =
     max (max (\<Sum>cause\<leftarrow>causes hazard.
                 max (case cause of None \<Rightarrow> 0
                      | Some c \<Rightarrow> (case preventionMeasures c of
                                     None \<Rightarrow> 0 | Some ms \<Rightarrow> int (length ms))) 1)
              (\<Sum>cons\<leftarrow>consequences hazard.
                 max (case cons of None \<Rightarrow> 0
                      | Some c \<Rightarrow> (case mitigationMeasures c of
                                     None \<Rightarrow> 0 | Some ms \<Rightarrow> int (length ms))) 1)) 1
   \<and> totalPreventionMeasures hazard
       = (\<Sum>cause\<leftarrow>causes hazard.
            max (case cause of None \<Rightarrow> 0
                 | Some c \<Rightarrow> (case preventionMeasures c of
                                None \<Rightarrow> 0 | Some ms \<Rightarrow> int (length ms))) 1)
   \<and> totalMitigationMeasures hazard
       = (\<Sum>cons\<leftarrow>consequences hazard.
            max (case cons of None \<Rightarrow> 0
                 | Some c \<Rightarrow> (case mitigationMeasures c of
                                None \<Rightarrow> 0 | Some ms \<Rightarrow> int (length ms))) 1)
   \<and> totalPreventionMeasures (hazard\<lparr>causes := []\<rparr>) = 0
   \<and> totalMitigationMeasures (hazard\<lparr>consequences := []\<rparr>) = 0
   \<and> 1 \<le> blockRows hazard
   \<and> totalPreventionMeasures scenarioHazard = 3
   \<and> totalMitigationMeasures scenarioHazard = 4
   \<and> blockRows scenarioHazard = 4
   \<and> totalPreventionMeasures bareHazard = 0
   \<and> totalMitigationMeasures bareHazard = 1
   \<and> blockRows bareHazard = 1
   \<and> totalPreventionMeasures raggedHazard = 5
   \<and> totalMitigationMeasures raggedHazard = 3
   \<and> blockRows raggedHazard = 5"
proof -
  note general = blockRows_counts [of hazard, unfolded causeMeasureCount_fields consMeasureCount_fields]
  have e1: "totalPreventionMeasures (hazard\<lparr>causes := []\<rparr>) = 0"
    and e2: "totalMitigationMeasures (hazard\<lparr>consequences := []\<rparr>) = 0"
    and ge: "1 \<le> blockRows hazard"
    by (simp_all add: hazard_simps)
  have s: "totalPreventionMeasures scenarioHazard = 3" "totalMitigationMeasures scenarioHazard = 4"
    "blockRows scenarioHazard = 4"
    by (simp_all add: hazard_simps scenarioHazard_def)
  have b: "totalPreventionMeasures bareHazard = 0" "totalMitigationMeasures bareHazard = 1"
    "blockRows bareHazard = 1"
    by (simp_all add: hazard_simps bareHazard_def)
  have r: "totalPreventionMeasures raggedHazard = 5" "totalMitigationMeasures raggedHazard = 3"
    "blockRows raggedHazard = 5"
    by (simp_all add: hazard_simps raggedHazard_def)
  from general e1 e2 ge s b r show ?thesis by blast
qed

section \<open>Facts about the row-span allocation\<close>

lemma causeLoop_spanAlloc:
  "map (\<lambda>out. (itemStart out - startRow, itemSpan out)) (causeLoop bRows startRow n i off cs)
     = spanAlloc bRows n i off (map causeMeasureCount cs)"
  by (induction cs arbitrary: i off) (simp_all add: Let_def)

lemma consLoop_spanAlloc:
  "map (\<lambda>out. (itemStart out - startRow, itemSpan out)) (consLoop bRows startRow n i off cs)
     = spanAlloc bRows n i off (map consMeasureCount cs)"
  by (induction cs arbitrary: i off) (simp_all add: Let_def)

lemma spanAlloc_length [simp]: "length (spanAlloc bRows n i off xs) = length xs"
  by (induction xs arbitrary: i off) (simp_all add: Let_def)

lemma spanAlloc_snd:
  "i + length xs = n \<Longrightarrow> xs \<noteq> [] \<Longrightarrow>
   map snd (spanAlloc bRows n i off xs)
     = map (\<lambda>a. max a 1) (butlast xs) @ [bRows - off - (\<Sum>a\<leftarrow>butlast xs. max a 1)]"
proof (induction xs arbitrary: i off)
  case Nil
  then show ?case by simp
next
  case (Cons a rest)
  show ?case
  proof (cases "rest = []")
    case True
    with Cons.prems show ?thesis by (simp add: Let_def)
  next
    case False
    with Cons.prems have notlast: "int i \<noteq> int n - 1" by auto
    from Cons.prems have inv: "Suc i + length rest = n" by simp
    show ?thesis
      using Cons.IH [OF inv False, of "off + max a 1"] False notlast
      by (simp add: Let_def algebra_simps)
  qed
qed

lemma spanAlloc_fst:
  "k < length xs \<Longrightarrow>
   fst (spanAlloc bRows n i off xs ! k)
     = off + sum_list (take k (map snd (spanAlloc bRows n i off xs)))"
proof (induction xs arbitrary: i off k)
  case Nil
  then show ?case by simp
next
  case (Cons a rest)
  show ?case
  proof (cases k)
    case 0
    then show ?thesis by (simp add: Let_def)
  next
    case (Suc k')
    with Cons.prems have "k' < length rest" by simp
    from Cons.IH [OF this] Suc show ?thesis by (simp add: Let_def)
  qed
qed

lemma sum_list_take_mono:
  "(\<forall>x \<in> set xs. (0::int) \<le> x) \<Longrightarrow> i \<le> j \<Longrightarrow> sum_list (take i xs) \<le> sum_list (take j xs)"
proof (induction xs arbitrary: i j)
  case Nil
  then show ?case by simp
next
  case (Cons x xs)
  show ?case
  proof (cases i)
    case 0
    have "\<forall>y \<in> set (take j (x # xs)). 0 \<le> y"
      using Cons.prems(1) by (metis in_set_takeD)
    then have "0 \<le> sum_list (take j (x # xs))"
      by (intro sum_list_nonneg) blast
    with 0 show ?thesis by simp
  next
    case (Suc i')
    with Cons.prems obtain j' where j: "j = Suc j'" and "i' \<le> j'" by (cases j) auto
    with Cons.IH [of i' j'] Cons.prems(1) Suc show ?thesis by simp
  qed
qed

lemma alloc_facts:
  assumes proj: "map (\<lambda>out. (itemStart out - startRow, itemSpan out)) items
                   = spanAlloc bRows (length xs) 0 0 xs"
    and ne: "xs \<noteq> []"
  shows alloc_length: "length items = length xs"
    and alloc_spans: "map itemSpan items
                        = map (\<lambda>a. max a 1) (butlast xs) @ [bRows - (\<Sum>a\<leftarrow>butlast xs. max a 1)]"
    and alloc_start: "\<forall>i < length items.
                        itemStart (items ! i) = startRow + (\<Sum>out\<leftarrow>take i items. itemSpan out)"
proof -
  show len: "length items = length xs"
    using arg_cong [OF proj, of length] by simp
  have snd_eq: "map itemSpan items = map snd (spanAlloc bRows (length xs) 0 0 xs)"
    using arg_cong [OF proj, of "map snd"] by (simp add: comp_def)
  show "map itemSpan items
          = map (\<lambda>a. max a 1) (butlast xs) @ [bRows - (\<Sum>a\<leftarrow>butlast xs. max a 1)]"
    using spanAlloc_snd [of 0 xs "length xs" bRows 0] ne snd_eq by simp
  show "\<forall>i < length items.
          itemStart (items ! i) = startRow + (\<Sum>out\<leftarrow>take i items. itemSpan out)"
  proof (intro allI impI)
    fix i assume i: "i < length items"
    have "itemStart (items ! i) - startRow
            = fst (map (\<lambda>out. (itemStart out - startRow, itemSpan out)) items ! i)"
      using i by simp
    also have "\<dots> = fst (spanAlloc bRows (length xs) 0 0 xs ! i)"
      by (simp only: proj)
    also have "\<dots> = sum_list (take i (map snd (spanAlloc bRows (length xs) 0 0 xs)))"
      using spanAlloc_fst [of i xs bRows "length xs" 0 0] i len by simp
    also have "\<dots> = (\<Sum>out\<leftarrow>take i items. itemSpan out)"
      by (simp only: snd_eq [symmetric] take_map)
    finally show "itemStart (items ! i) = startRow + (\<Sum>out\<leftarrow>take i items. itemSpan out)"
      by simp
  qed
qed

lemma sum_list_butlast_last:
  "xs \<noteq> [] \<Longrightarrow> (\<Sum>a\<leftarrow>xs. f a) = (\<Sum>a\<leftarrow>butlast xs. f a) + (f (last xs) :: int)"
  by (induction xs) simp_all

lemma alloc_tiles:
  assumes proj: "map (\<lambda>out. (itemStart out - startRow, itemSpan out)) items
                   = spanAlloc bRows (length xs) 0 0 xs"
    and ne: "xs \<noteq> []"
    and budget: "(\<Sum>a\<leftarrow>xs. max a 1) \<le> bRows"
  shows "tilesBlock startRow bRows items"
proof -
  note len = alloc_length [OF proj ne]
  note spans = alloc_spans [OF proj ne]
  note start = alloc_start [OF proj ne]
  have sum: "(\<Sum>out\<leftarrow>items. itemSpan out) = bRows"
    using arg_cong [OF spans, of sum_list] by simp
  have lastge: "1 \<le> bRows - (\<Sum>a\<leftarrow>butlast xs. max a 1)"
    using budget sum_list_butlast_last [OF ne, of "\<lambda>a. max a 1"] by simp
  have pos: "\<forall>s \<in> set (map itemSpan items). 1 \<le> s"
    using lastge by (auto simp: spans)
  then have pos_nth: "\<forall>i < length items. 1 \<le> itemSpan (items ! i)"
    by simp
  have nonneg: "\<forall>s \<in> set (map itemSpan items). 0 \<le> s"
    using pos by force
  have step: "\<forall>i. Suc i < length items \<longrightarrow>
                itemStart (items ! Suc i) = itemStart (items ! i) + itemSpan (items ! i)"
  proof (intro allI impI)
    fix i assume i: "Suc i < length items"
    then have "take (Suc i) items = take i items @ [items ! i]"
      by (simp add: take_Suc_conv_app_nth)
    with start i show "itemStart (items ! Suc i) = itemStart (items ! i) + itemSpan (items ! i)"
      by simp
  qed
  have apart: "\<forall>i j. i < j \<and> j < length items \<longrightarrow>
                 itemStart (items ! i) + itemSpan (items ! i) \<le> itemStart (items ! j)"
  proof (intro allI impI)
    fix i j assume ij: "i < j \<and> j < length items"
    then have i: "i < length items" and j: "j < length items" and le: "Suc i \<le> j" by auto
    have "take (Suc i) items = take i items @ [items ! i]"
      using i by (simp add: take_Suc_conv_app_nth)
    then have "itemStart (items ! i) + itemSpan (items ! i)
                 = startRow + sum_list (take (Suc i) (map itemSpan items))"
      using start i by (simp add: take_map)
    also have "\<dots> \<le> startRow + sum_list (take j (map itemSpan items))"
      using sum_list_take_mono [OF nonneg le] by simp
    also have "\<dots> = itemStart (items ! j)"
      using start j by (simp add: take_map)
    finally show "itemStart (items ! i) + itemSpan (items ! i) \<le> itemStart (items ! j)" .
  qed
  have first: "items \<noteq> [] \<longrightarrow> itemStart (items ! 0) = startRow"
    using start by auto
  show ?thesis
    unfolding tilesBlock_def using sum pos_nth first step apart by blast
qed

lemma prevention_budget: "(\<Sum>a\<leftarrow>map causeMeasureCount (causes hazard). max a 1) \<le> blockRows hazard"
  by (simp add: blockRows_def totalPreventionMeasures_sum comp_def)

lemma mitigation_budget: "(\<Sum>a\<leftarrow>map consMeasureCount (consequences hazard). max a 1) \<le> blockRows hazard"
  by (simp add: blockRows_def totalMitigationMeasures_sum comp_def)

text \<open>
  Claim C2. For every hazard with a non-empty cause list, the export's cause loop gives
  one span per cause, the spans add up to the hazard's block row count, the first cause
  starts at offset 0 of the block, every further cause starts where the previous one
  ended, and no two causes' row ranges overlap. The same holds for a non-empty
  consequence list.
\<close>

theorem C2_spans_tile_block:
  "(causes hazard \<noteq> [] \<longrightarrow>
      length (causeCells hazard startRow) = length (causes hazard) \<and>
      tilesBlock startRow (blockRows hazard) (causeCells hazard startRow))
   \<and> (consequences hazard \<noteq> [] \<longrightarrow>
      length (consCells hazard startRow) = length (consequences hazard) \<and>
      tilesBlock startRow (blockRows hazard) (consCells hazard startRow))"
proof (intro conjI impI)
  assume ne: "causes hazard \<noteq> []"
  have proj: "map (\<lambda>out. (itemStart out - startRow, itemSpan out)) (causeCells hazard startRow)
                = spanAlloc (blockRows hazard) (length (map causeMeasureCount (causes hazard))) 0 0
                    (map causeMeasureCount (causes hazard))"
    by (simp add: causeCells_def causeLoop_spanAlloc)
  from ne have ne': "map causeMeasureCount (causes hazard) \<noteq> []" by simp
  show "length (causeCells hazard startRow) = length (causes hazard)"
    using alloc_length [OF proj ne'] by simp
  show "tilesBlock startRow (blockRows hazard) (causeCells hazard startRow)"
    by (rule alloc_tiles [OF proj ne' prevention_budget])
next
  assume ne: "consequences hazard \<noteq> []"
  have proj: "map (\<lambda>out. (itemStart out - startRow, itemSpan out)) (consCells hazard startRow)
                = spanAlloc (blockRows hazard) (length (map consMeasureCount (consequences hazard))) 0 0
                    (map consMeasureCount (consequences hazard))"
    by (simp add: consCells_def consLoop_spanAlloc)
  from ne have ne': "map consMeasureCount (consequences hazard) \<noteq> []" by simp
  show "length (consCells hazard startRow) = length (consequences hazard)"
    using alloc_length [OF proj ne'] by simp
  show "tilesBlock startRow (blockRows hazard) (consCells hazard startRow)"
    by (rule alloc_tiles [OF proj ne' mitigation_budget])
qed

lemmas scenario_simps =
  scenarioHazard_def causeCells_def consCells_def blockRows_def totalPreventionMeasures_def
  totalMitigationMeasures_def measureCells_def Let_def

theorem C2_spans_tile_block_witness:
  "causes scenarioHazard \<noteq> [] \<and> consequences scenarioHazard \<noteq> []
   \<and> blockRows scenarioHazard = 4
   \<and> map (\<lambda>out. (itemStart out, itemSpan out)) (causeCells scenarioHazard 0) = [(0, 2), (2, 2)]
   \<and> map (\<lambda>out. (itemStart out, itemSpan out)) (consCells scenarioHazard 0) = [(0, 1), (1, 3)]
   \<and> tilesBlock 0 4 (causeCells scenarioHazard 0)
   \<and> tilesBlock 0 4 (consCells scenarioHazard 0)"
  using C2_spans_tile_block [of scenarioHazard 0] by (simp add: scenario_simps)

lemma last_item_expansion_counts:
  "(cs \<noteq> [] \<and> (\<Sum>c\<leftarrow>cs. max (causeMeasureCount c) 1) \<le> bRows \<longrightarrow>
      (let items = causeLoop bRows startRow (length cs) 0 0 cs in
         length items = length cs \<and>
         (\<forall>i. Suc i < length cs \<longrightarrow> itemSpan (items ! i) = max (causeMeasureCount (cs ! i)) 1) \<and>
         itemSpan (last items) = bRows - (\<Sum>out\<leftarrow>butlast items. itemSpan out) \<and>
         max (causeMeasureCount (last cs)) 1 \<le> itemSpan (last items) \<and>
         (length cs = 1 \<longrightarrow> itemSpan (hd items) = bRows)))
   \<and> (ks \<noteq> [] \<and> (\<Sum>k\<leftarrow>ks. max (consMeasureCount k) 1) \<le> bRows \<longrightarrow>
      (let items = consLoop bRows startRow (length ks) 0 0 ks in
         length items = length ks \<and>
         (\<forall>i. Suc i < length ks \<longrightarrow> itemSpan (items ! i) = max (consMeasureCount (ks ! i)) 1) \<and>
         itemSpan (last items) = bRows - (\<Sum>out\<leftarrow>butlast items. itemSpan out) \<and>
         max (consMeasureCount (last ks)) 1 \<le> itemSpan (last items) \<and>
         (length ks = 1 \<longrightarrow> itemSpan (hd items) = bRows)))
   \<and> (\<Sum>c\<leftarrow>causes hazard. max (causeMeasureCount c) 1) \<le> blockRows hazard
   \<and> (\<Sum>k\<leftarrow>consequences hazard. max (consMeasureCount k) 1) \<le> blockRows hazard"
proof -
  have generic:
    "length items = length xs \<and>
     (\<forall>i. Suc i < length xs \<longrightarrow> itemSpan (items ! i) = max (xs ! i) 1) \<and>
     itemSpan (last items) = bRows - (\<Sum>out\<leftarrow>butlast items. itemSpan out) \<and>
     max (last xs) 1 \<le> itemSpan (last items) \<and>
     (length xs = 1 \<longrightarrow> itemSpan (hd items) = bRows)"
    if proj: "map (\<lambda>out. (itemStart out - startRow, itemSpan out)) items
                = spanAlloc bRows (length xs) 0 0 xs"
      and ne: "xs \<noteq> []" and budget: "(\<Sum>a\<leftarrow>xs. max a 1) \<le> bRows"
    for items :: "ItemOut list" and xs
  proof -
    note len = alloc_length [OF proj ne]
    note spans = alloc_spans [OF proj ne]
    from ne len have ine: "items \<noteq> []" by auto
    have early: "\<forall>i. Suc i < length xs \<longrightarrow> itemSpan (items ! i) = max (xs ! i) 1"
    proof (intro allI impI)
      fix i assume i: "Suc i < length xs"
      then have "itemSpan (items ! i) = map itemSpan items ! i"
        using len by simp
      also have "\<dots> = max (xs ! i) 1"
      proof -
        from i have "i < length (butlast xs)" by simp
        then show ?thesis by (simp add: spans nth_append nth_butlast)
      qed
      finally show "itemSpan (items ! i) = max (xs ! i) 1" .
    qed
    have bl: "map itemSpan (butlast items) = map (\<lambda>a. max a 1) (butlast xs)"
      using arg_cong [OF spans, of butlast] by (simp add: map_butlast)
    have la: "itemSpan (last items) = bRows - (\<Sum>a\<leftarrow>butlast xs. max a 1)"
      using arg_cong [OF spans, of last] ine by (simp add: last_map)
    have la': "itemSpan (last items) = bRows - (\<Sum>out\<leftarrow>butlast items. itemSpan out)"
      using la arg_cong [OF bl, of sum_list] by simp
    have ge: "max (last xs) 1 \<le> itemSpan (last items)"
      using budget sum_list_butlast_last [OF ne, of "\<lambda>a. max a 1"] la by linarith
    have single: "length xs = 1 \<longrightarrow> itemSpan (hd items) = bRows"
    proof
      assume one: "length xs = 1"
      then obtain a where "xs = [a]" by (cases xs) auto
      with spans have "map itemSpan items = [bRows]" by simp
      then show "itemSpan (hd items) = bRows" by (cases items) auto
    qed
    from len early la' ge single show ?thesis by blast
  qed
  have cause_side: "cs \<noteq> [] \<and> (\<Sum>c\<leftarrow>cs. max (causeMeasureCount c) 1) \<le> bRows \<longrightarrow>
      (let items = causeLoop bRows startRow (length cs) 0 0 cs in
         length items = length cs \<and>
         (\<forall>i. Suc i < length cs \<longrightarrow> itemSpan (items ! i) = max (causeMeasureCount (cs ! i)) 1) \<and>
         itemSpan (last items) = bRows - (\<Sum>out\<leftarrow>butlast items. itemSpan out) \<and>
         max (causeMeasureCount (last cs)) 1 \<le> itemSpan (last items) \<and>
         (length cs = 1 \<longrightarrow> itemSpan (hd items) = bRows))"
  proof
    assume a: "cs \<noteq> [] \<and> (\<Sum>c\<leftarrow>cs. max (causeMeasureCount c) 1) \<le> bRows"
    have proj: "map (\<lambda>out. (itemStart out - startRow, itemSpan out))
                  (causeLoop bRows startRow (length cs) 0 0 cs)
                = spanAlloc bRows (length (map causeMeasureCount cs)) 0 0 (map causeMeasureCount cs)"
      by (simp add: causeLoop_spanAlloc)
    from a have ne: "map causeMeasureCount cs \<noteq> []"
      and budget: "(\<Sum>a\<leftarrow>map causeMeasureCount cs. max a 1) \<le> bRows"
      by (simp_all add: comp_def)
    from generic [OF proj ne budget] a show
      "let items = causeLoop bRows startRow (length cs) 0 0 cs in
         length items = length cs \<and>
         (\<forall>i. Suc i < length cs \<longrightarrow> itemSpan (items ! i) = max (causeMeasureCount (cs ! i)) 1) \<and>
         itemSpan (last items) = bRows - (\<Sum>out\<leftarrow>butlast items. itemSpan out) \<and>
         max (causeMeasureCount (last cs)) 1 \<le> itemSpan (last items) \<and>
         (length cs = 1 \<longrightarrow> itemSpan (hd items) = bRows)"
      by (simp add: Let_def last_map)
  qed
  have cons_side: "ks \<noteq> [] \<and> (\<Sum>k\<leftarrow>ks. max (consMeasureCount k) 1) \<le> bRows \<longrightarrow>
      (let items = consLoop bRows startRow (length ks) 0 0 ks in
         length items = length ks \<and>
         (\<forall>i. Suc i < length ks \<longrightarrow> itemSpan (items ! i) = max (consMeasureCount (ks ! i)) 1) \<and>
         itemSpan (last items) = bRows - (\<Sum>out\<leftarrow>butlast items. itemSpan out) \<and>
         max (consMeasureCount (last ks)) 1 \<le> itemSpan (last items) \<and>
         (length ks = 1 \<longrightarrow> itemSpan (hd items) = bRows))"
  proof
    assume a: "ks \<noteq> [] \<and> (\<Sum>k\<leftarrow>ks. max (consMeasureCount k) 1) \<le> bRows"
    have proj: "map (\<lambda>out. (itemStart out - startRow, itemSpan out))
                  (consLoop bRows startRow (length ks) 0 0 ks)
                = spanAlloc bRows (length (map consMeasureCount ks)) 0 0 (map consMeasureCount ks)"
      by (simp add: consLoop_spanAlloc)
    from a have ne: "map consMeasureCount ks \<noteq> []"
      and budget: "(\<Sum>a\<leftarrow>map consMeasureCount ks. max a 1) \<le> bRows"
      by (simp_all add: comp_def)
    from generic [OF proj ne budget] a show
      "let items = consLoop bRows startRow (length ks) 0 0 ks in
         length items = length ks \<and>
         (\<forall>i. Suc i < length ks \<longrightarrow> itemSpan (items ! i) = max (consMeasureCount (ks ! i)) 1) \<and>
         itemSpan (last items) = bRows - (\<Sum>out\<leftarrow>butlast items. itemSpan out) \<and>
         max (consMeasureCount (last ks)) 1 \<le> itemSpan (last items) \<and>
         (length ks = 1 \<longrightarrow> itemSpan (hd items) = bRows)"
      by (simp add: Let_def last_map)
  qed
  have b1: "(\<Sum>c\<leftarrow>causes hazard. max (causeMeasureCount c) 1) \<le> blockRows hazard"
    using prevention_budget [of hazard] by (simp add: comp_def)
  have b2: "(\<Sum>k\<leftarrow>consequences hazard. max (consMeasureCount k) 1) \<le> blockRows hazard"
    using mitigation_budget [of hazard] by (simp add: comp_def)
  from cause_side cons_side b1 b2 show ?thesis by blast
qed

text \<open>
  Claim C3. For a non-empty item list and a row budget that is at least the sum of the
  natural spans max(number of measures, 1), the number of measures being the length of
  the item's measure array, every item but the last receives its natural span, the last
  item receives the budget minus the spans of the earlier items, which is at least its
  natural span, and a list of exactly one item receives the whole budget. This holds for
  the cause loop and for the consequence loop; the hazard's own block row count is such
  a budget for both of its lists.
\<close>

theorem C3_last_item_expansion:
  "(cs \<noteq> [] \<and>
    (\<Sum>c\<leftarrow>cs. max (case c of None \<Rightarrow> 0
                    | Some c' \<Rightarrow> (case preventionMeasures c' of
                                    None \<Rightarrow> 0 | Some ms \<Rightarrow> int (length ms))) 1) \<le> bRows \<longrightarrow>
      (let items = causeLoop bRows startRow (length cs) 0 0 cs in
         length items = length cs \<and>
         (\<forall>i. Suc i < length cs \<longrightarrow>
            itemSpan (items ! i)
              = max (case cs ! i of None \<Rightarrow> 0
                     | Some c' \<Rightarrow> (case preventionMeasures c' of
                                     None \<Rightarrow> 0 | Some ms \<Rightarrow> int (length ms))) 1) \<and>
         itemSpan (last items) = bRows - (\<Sum>out\<leftarrow>butlast items. itemSpan out) \<and>
         max (case last cs of None \<Rightarrow> 0
              | Some c' \<Rightarrow> (case preventionMeasures c' of
                              None \<Rightarrow> 0 | Some ms \<Rightarrow> int (length ms))) 1
           \<le> itemSpan (last items) \<and>
         (length cs = 1 \<longrightarrow> itemSpan (hd items) = bRows)))
   \<and> (ks \<noteq> [] \<and>
    (\<Sum>k\<leftarrow>ks. max (case k of None \<Rightarrow> 0
                    | Some k' \<Rightarrow> (case mitigationMeasures k' of
                                    None \<Rightarrow> 0 | Some ms \<Rightarrow> int (length ms))) 1) \<le> bRows \<longrightarrow>
      (let items = consLoop bRows startRow (length ks) 0 0 ks in
         length items = length ks \<and>
         (\<forall>i. Suc i < length ks \<longrightarrow>
            itemSpan (items ! i)
              = max (case ks ! i of None \<Rightarrow> 0
                     | Some k' \<Rightarrow> (case mitigationMeasures k' of
                                     None \<Rightarrow> 0 | Some ms \<Rightarrow> int (length ms))) 1) \<and>
         itemSpan (last items) = bRows - (\<Sum>out\<leftarrow>butlast items. itemSpan out) \<and>
         max (case last ks of None \<Rightarrow> 0
              | Some k' \<Rightarrow> (case mitigationMeasures k' of
                              None \<Rightarrow> 0 | Some ms \<Rightarrow> int (length ms))) 1
           \<le> itemSpan (last items) \<and>
         (length ks = 1 \<longrightarrow> itemSpan (hd items) = bRows)))
   \<and> (\<Sum>c\<leftarrow>causes hazard.
          max (case c of None \<Rightarrow> 0
               | Some c' \<Rightarrow> (case preventionMeasures c' of
                               None \<Rightarrow> 0 | Some ms \<Rightarrow> int (length ms))) 1) \<le> blockRows hazard
   \<and> (\<Sum>k\<leftarrow>consequences hazard.
          max (case k of None \<Rightarrow> 0
               | Some k' \<Rightarrow> (case mitigationMeasures k' of
                               None \<Rightarrow> 0 | Some ms \<Rightarrow> int (length ms))) 1) \<le> blockRows hazard"
  by (rule last_item_expansion_counts
            [of cs bRows startRow ks hazard,
             unfolded causeMeasureCount_fields consMeasureCount_fields])

theorem C3_last_item_expansion_witness:
  "causes raggedHazard \<noteq> []
   \<and> map (\<lambda>out. (itemStart out, itemSpan out)) (causeLoop 5 0 3 0 0 (causes raggedHazard))
       = [(0, 3), (3, 1), (4, 1)]
   \<and> consequences raggedHazard \<noteq> []
   \<and> map (\<lambda>out. (itemStart out, itemSpan out)) (consLoop 5 0 2 0 0 (consequences raggedHazard))
       = [(0, 2), (2, 3)]
   \<and> map (\<lambda>out. (itemStart out, itemSpan out)) (causeLoop 7 0 3 0 0 (causes raggedHazard))
       = [(0, 3), (3, 1), (4, 3)]
   \<and> map (\<lambda>out. (itemStart out, itemSpan out))
         (causeLoop 4 0 1 0 0
            [Some \<lparr>cause_id = ''b'', cause_text = ''B'', preventionMeasures = Some []\<rparr>])
       = [(0, 4)]
   \<and> map (\<lambda>out. (itemStart out, itemSpan out))
         (consLoop 4 0 1 0 0
            [Some \<lparr>cons_id = ''k'', cons_text = ''K'',
                   mitigationMeasures = Some [\<lparr>measure_id = ''k1'', measure_text = ''K1''\<rparr>,
                                              \<lparr>measure_id = ''k2'', measure_text = ''K2''\<rparr>],
                   risk = None\<rparr>])
       = [(0, 4)]
   \<and> blockRows raggedHazard = 5"
  using C3_last_item_expansion
          [where cs = "causes raggedHazard" and bRows = 5 and ks = "consequences raggedHazard"
             and startRow = 0 and hazard = raggedHazard]
        C3_last_item_expansion
          [where cs = "causes raggedHazard" and bRows = 7 and ks = "consequences raggedHazard"
             and startRow = 0 and hazard = raggedHazard]
        C3_last_item_expansion
          [where cs = "[Some \<lparr>cause_id = ''b'', cause_text = ''B'', preventionMeasures = Some []\<rparr>]"
             and bRows = 4
             and ks = "[Some \<lparr>cons_id = ''k'', cons_text = ''K'',
                   mitigationMeasures = Some [\<lparr>measure_id = ''k1'', measure_text = ''K1''\<rparr>,
                                              \<lparr>measure_id = ''k2'', measure_text = ''K2''\<rparr>],
                   risk = None\<rparr>]"
             and startRow = 0 and hazard = raggedHazard]
  by (simp add: hazard_simps raggedHazard_def Let_def)

section \<open>Facts about the measure cells\<close>

lemma causeMeasureCount_list: "causeMeasureCount c = int (length (causeMeasureList c))"
  by (cases c) (auto split: option.splits)

lemma consMeasureCount_list: "consMeasureCount c = int (length (consMeasureList c))"
  by (cases c) (auto split: option.splits)

lemma causeLoop_nth_measures:
  "i < length cs \<Longrightarrow>
   itemMeasureCells (causeLoop bRows startRow n j off cs ! i)
     = (if 0 < causeMeasureCount (cs ! i)
        then measureCells (itemStart (causeLoop bRows startRow n j off cs ! i))
               (itemSpan (causeLoop bRows startRow n j off cs ! i)) 3 (causeMeasureList (cs ! i))
        else [])"
proof (induction cs arbitrary: i j off)
  case Nil
  then show ?case by simp
next
  case (Cons c rest)
  show ?case
  proof (cases i)
    case 0
    then show ?thesis by (simp add: Let_def)
  next
    case (Suc i')
    with Cons.prems have "i' < length rest" by simp
    from Cons.IH [OF this] Suc show ?thesis by (simp add: Let_def)
  qed
qed

lemma consLoop_nth_measures:
  "i < length cs \<Longrightarrow>
   itemMeasureCells (consLoop bRows startRow n j off cs ! i)
     = (if 0 < consMeasureCount (cs ! i)
        then measureCells (itemStart (consLoop bRows startRow n j off cs ! i))
               (itemSpan (consLoop bRows startRow n j off cs ! i)) 5 (consMeasureList (cs ! i))
        else [])"
proof (induction cs arbitrary: i j off)
  case Nil
  then show ?case by simp
next
  case (Cons c rest)
  show ?case
  proof (cases i)
    case 0
    then show ?thesis by (simp add: Let_def)
  next
    case (Suc i')
    with Cons.prems have "i' < length rest" by simp
    from Cons.IH [OF this] Suc show ?thesis by (simp add: Let_def)
  qed
qed

lemma measureCells_length [simp]: "length (measureCells st rows col ms) = length ms"
  by (simp add: measureCells_def)

lemma measureCells_nth:
  "k < length ms \<Longrightarrow>
   measureCells st rows col ms ! k
     = \<lparr>m_row = st + int k, m_col = col,
        m_rowSpan = (if int k = int (length ms) - 1 then rows - int k else 1),
        m_value = measure_text (ms ! k)\<rparr>"
  by (simp add: measureCells_def nth_enumerate_eq)

lemma measureCells_spans:
  assumes "ms \<noteq> []"
  shows "map m_rowSpan (measureCells st rows col ms)
           = replicate (length ms - 1) 1 @ [rows - int (length ms - 1)]"
proof (rule nth_equalityI)
  show "length (map m_rowSpan (measureCells st rows col ms))
          = length (replicate (length ms - 1) 1 @ [rows - int (length ms - 1)])"
    using assms by (cases ms) simp_all
next
  fix k assume "k < length (map m_rowSpan (measureCells st rows col ms))"
  then have k: "k < length ms" by simp
  show "map m_rowSpan (measureCells st rows col ms) ! k
          = (replicate (length ms - 1) 1 @ [rows - int (length ms - 1)]) ! k"
  proof (cases "Suc k = length ms")
    case True
    then show ?thesis using k by (auto simp: measureCells_nth nth_append)
  next
    case False
    with k have "k < length ms - 1" by simp
    then show ?thesis using k by (auto simp: measureCells_nth nth_append)
  qed
qed

lemma alloc_span_ge:
  assumes proj: "map (\<lambda>out. (itemStart out - startRow, itemSpan out)) items
                   = spanAlloc bRows (length xs) 0 0 xs"
    and ne: "xs \<noteq> []"
    and budget: "(\<Sum>a\<leftarrow>xs. max a 1) \<le> bRows"
    and i: "i < length xs"
  shows "max (xs ! i) 1 \<le> itemSpan (items ! i)"
proof -
  note len = alloc_length [OF proj ne]
  note spans = alloc_spans [OF proj ne]
  have eq: "itemSpan (items ! i) = map itemSpan items ! i"
    using i len by simp
  show ?thesis
  proof (cases "Suc i = length xs")
    case True
    then have "map itemSpan items ! i = bRows - (\<Sum>a\<leftarrow>butlast xs. max a 1)"
      by (auto simp: spans nth_append)
    moreover have "xs ! i = last xs"
      using True ne by (metis diff_Suc_1 last_conv_nth)
    ultimately show ?thesis
      using budget sum_list_butlast_last [OF ne, of "\<lambda>a. max a 1"] eq by linarith
  next
    case False
    with i have "i < length (butlast xs)" by simp
    then have "map itemSpan items ! i = max (xs ! i) 1"
      by (simp add: spans nth_append nth_butlast)
    with eq show ?thesis by simp
  qed
qed

lemma measuresFill_intro:
  assumes cells: "itemMeasureCells out
                    = (if 0 < int (length ms)
                       then measureCells (itemStart out) (itemSpan out) col ms else [])"
    and ge: "max (int (length ms)) 1 \<le> itemSpan out"
  shows "measuresFill out (length ms)"
proof (cases "ms = []")
  case True
  with cells ge show ?thesis by (simp add: measuresFill_def mergeEndRow_def)
next
  case False
  then have pos: "0 < length ms" by simp
  with cells have c: "itemMeasureCells out = measureCells (itemStart out) (itemSpan out) col ms"
    by simp
  have lastk: "length ms - 1 < length ms" using pos by simp
  have intm: "int (length ms - 1) = int (length ms) - 1" using False by (cases ms) simp_all
  have early: "\<forall>k. Suc k < length ms \<longrightarrow>
           m_row (itemMeasureCells out ! k) = itemStart out + int k \<and>
           m_rowSpan (itemMeasureCells out ! k) = 1"
    by (auto simp: c measureCells_nth)
  have l1: "m_row (itemMeasureCells out ! (length ms - 1)) = itemStart out + int (length ms - 1)"
    using lastk by (simp add: c measureCells_nth)
  have l2: "m_rowSpan (itemMeasureCells out ! (length ms - 1)) = itemSpan out - int (length ms - 1)"
    using lastk intm by (simp add: c measureCells_nth)
  have l3: "mergeEndRow (itemMeasureCells out ! (length ms - 1)) = itemStart out + itemSpan out - 1"
    using l1 l2 ge intm by (simp add: mergeEndRow_def)
  have total: "(\<Sum>c\<leftarrow>itemMeasureCells out. m_rowSpan c) = itemSpan out"
    using arg_cong [OF measureCells_spans [OF False, of "itemStart out" "itemSpan out" col], of sum_list]
    by (simp add: c sum_list_replicate)
  show ?thesis
    unfolding measuresFill_def using pos c early l1 l2 l3 total by simp
qed

lemma measures_fill_item_lists:
  "(\<forall>i < length (causes hazard).
      measuresFill (causeCells hazard startRow ! i) (length (causeMeasureList (causes hazard ! i))))
   \<and> (\<forall>i < length (consequences hazard).
      measuresFill (consCells hazard startRow ! i)
        (length (consMeasureList (consequences hazard ! i))))"
proof (intro conjI allI impI)
  fix i assume i: "i < length (causes hazard)"
  then have ne: "map causeMeasureCount (causes hazard) \<noteq> []" by auto
  have proj: "map (\<lambda>out. (itemStart out - startRow, itemSpan out)) (causeCells hazard startRow)
                = spanAlloc (blockRows hazard) (length (map causeMeasureCount (causes hazard))) 0 0
                    (map causeMeasureCount (causes hazard))"
    by (simp add: causeCells_def causeLoop_spanAlloc)
  have ge: "max (int (length (causeMeasureList (causes hazard ! i)))) 1
              \<le> itemSpan (causeCells hazard startRow ! i)"
    using alloc_span_ge [OF proj ne prevention_budget, of i] i
    by (simp add: causeMeasureCount_list)
  have cells: "itemMeasureCells (causeCells hazard startRow ! i)
                 = (if 0 < int (length (causeMeasureList (causes hazard ! i)))
                    then measureCells (itemStart (causeCells hazard startRow ! i))
                           (itemSpan (causeCells hazard startRow ! i)) 3
                           (causeMeasureList (causes hazard ! i))
                    else [])"
    using causeLoop_nth_measures [OF i] by (simp add: causeCells_def causeMeasureCount_list)
  show "measuresFill (causeCells hazard startRow ! i) (length (causeMeasureList (causes hazard ! i)))"
    by (rule measuresFill_intro [OF cells ge])
next
  fix i assume i: "i < length (consequences hazard)"
  then have ne: "map consMeasureCount (consequences hazard) \<noteq> []" by auto
  have proj: "map (\<lambda>out. (itemStart out - startRow, itemSpan out)) (consCells hazard startRow)
                = spanAlloc (blockRows hazard) (length (map consMeasureCount (consequences hazard))) 0 0
                    (map consMeasureCount (consequences hazard))"
    by (simp add: consCells_def consLoop_spanAlloc)
  have ge: "max (int (length (consMeasureList (consequences hazard ! i)))) 1
              \<le> itemSpan (consCells hazard startRow ! i)"
    using alloc_span_ge [OF proj ne mitigation_budget, of i] i
    by (simp add: consMeasureCount_list)
  have cells: "itemMeasureCells (consCells hazard startRow ! i)
                 = (if 0 < int (length (consMeasureList (consequences hazard ! i)))
                    then measureCells (itemStart (consCells hazard startRow ! i))
                           (itemSpan (consCells hazard startRow ! i)) 5
                           (consMeasureList (consequences hazard ! i))
                    else [])"
    using consLoop_nth_measures [OF i] by (simp add: consCells_def consMeasureCount_list)
  show "measuresFill (consCells hazard startRow ! i)
          (length (consMeasureList (consequences hazard ! i)))"
    by (rule measuresFill_intro [OF cells ge])
qed

lemma causeMeasureList_fields:
  "length (causeMeasureList cause)
     = (case cause of None \<Rightarrow> 0
        | Some c \<Rightarrow> (case preventionMeasures c of None \<Rightarrow> 0 | Some ms \<Rightarrow> length ms))"
  by (cases cause) (simp_all split: option.splits)

lemma consMeasureList_fields:
  "length (consMeasureList cons)
     = (case cons of None \<Rightarrow> 0
        | Some c \<Rightarrow> (case mitigationMeasures c of None \<Rightarrow> 0 | Some ms \<Rightarrow> length ms))"
  by (cases cons) (simp_all split: option.splits)

lemma add_slot_alone:
  "owned = None \<or> owned = Some [] \<Longrightarrow>
   renderMeasureStack owned = \<lparr>stack_rows = 1, stack_segments = [AddSegment]\<rparr>"
  by (auto simp: renderMeasureStack_def)

text \<open>
  Claim C4. In the export of a hazard, the measure cells of every cause and of every
  consequence fill that item's rows in the sense of \<open>measuresFill\<close>, for \<open>m\<close> the
  length of the item's measure array (0 for a null item or a missing array): one-row
  cells at consecutive offsets, the last cell spanning the item's span minus its index
  and ending on the item's last row; an item without measures has no measure cell and
  its own cell spans the whole item range. On screen, an item without measures shows a
  single add slot that is the whole one-row stack of its segment.
\<close>

theorem C4_measures_fill_item:
  "(\<forall>i < length (causes hazard).
      measuresFill (causeCells hazard startRow ! i)
        (case causes hazard ! i of None \<Rightarrow> 0
         | Some c \<Rightarrow> (case preventionMeasures c of None \<Rightarrow> 0 | Some ms \<Rightarrow> length ms)))
   \<and> (\<forall>i < length (consequences hazard).
      measuresFill (consCells hazard startRow ! i)
        (case consequences hazard ! i of None \<Rightarrow> 0
         | Some c \<Rightarrow> (case mitigationMeasures c of None \<Rightarrow> 0 | Some ms \<Rightarrow> length ms)))
   \<and> (owned = None \<or> owned = Some [] \<longrightarrow>
        renderMeasureStack owned = \<lparr>stack_rows = 1, stack_segments = [AddSegment]\<rparr>)"
  using measures_fill_item_lists
          [of hazard startRow, unfolded causeMeasureList_fields consMeasureList_fields]
        add_slot_alone [of owned]
  by blast

theorem C4_measures_fill_item_witness:
  "map (\<lambda>c. (m_row c, m_col c, m_rowSpan c, mergeEndRow c))
       (itemMeasureCells (causeCells raggedHazard 0 ! 0))
     = [(0, 3, 1, 0), (1, 3, 1, 1), (2, 3, 1, 2)]
   \<and> measuresFill (causeCells raggedHazard 0 ! 0) 3
   \<and> (itemStart (causeCells raggedHazard 0 ! 1), itemSpan (causeCells raggedHazard 0 ! 1)) = (3, 1)
   \<and> itemMeasureCells (causeCells raggedHazard 0 ! 1) = []
   \<and> measuresFill (causeCells raggedHazard 0 ! 1) 0
   \<and> map (\<lambda>c. (m_row c, m_col c, m_rowSpan c, mergeEndRow c))
         (itemMeasureCells (causeCells scenarioHazard 0 ! 1))
       = [(2, 3, 2, 3)]
   \<and> measuresFill (causeCells scenarioHazard 0 ! 1) 1
   \<and> map (\<lambda>c. (m_row c, m_col c, m_rowSpan c, mergeEndRow c))
         (itemMeasureCells (consCells raggedHazard 0 ! 0))
       = [(0, 5, 1, 0), (1, 5, 1, 1)]
   \<and> measuresFill (consCells raggedHazard 0 ! 0) 2
   \<and> map (\<lambda>c. (m_row c, m_col c, m_rowSpan c, mergeEndRow c))
         (itemMeasureCells (consCells scenarioHazard 0 ! 1))
       = [(1, 5, 1, 1), (2, 5, 1, 2), (3, 5, 1, 3)]
   \<and> measuresFill (consCells scenarioHazard 0 ! 1) 3
   \<and> (itemStart (consCells raggedHazard 0 ! 1), itemSpan (consCells raggedHazard 0 ! 1),
        mergeEndRow (itemCell (consCells raggedHazard 0 ! 1))) = (2, 3, 4)
   \<and> itemMeasureCells (consCells raggedHazard 0 ! 1) = []
   \<and> measuresFill (consCells raggedHazard 0 ! 1) 0
   \<and> renderMeasureStack (Some []) = \<lparr>stack_rows = 1, stack_segments = [AddSegment]\<rparr>
   \<and> renderMeasureStack None = \<lparr>stack_rows = 1, stack_segments = [AddSegment]\<rparr>"
  using C4_measures_fill_item [of raggedHazard 0, THEN conjunct1, rule_format, of 0]
        C4_measures_fill_item [of raggedHazard 0, THEN conjunct1, rule_format, of 1]
        C4_measures_fill_item [of scenarioHazard 0, THEN conjunct1, rule_format, of 1]
        C4_measures_fill_item [of raggedHazard 0, THEN conjunct2, THEN conjunct1, rule_format, of 0]
        C4_measures_fill_item [of raggedHazard 0, THEN conjunct2, THEN conjunct1, rule_format, of 1]
        C4_measures_fill_item [of scenarioHazard 0, THEN conjunct2, THEN conjunct1, rule_format, of 1]
        C4_measures_fill_item [where owned = "Some []", THEN conjunct2, THEN conjunct2]
        C4_measures_fill_item [where owned = None, THEN conjunct2, THEN conjunct2]
  by (simp add: scenario_simps raggedHazard_def mergeEndRow_def numeral_2_eq_2 numeral_3_eq_3)

section \<open>Facts about matrix regeneration and lookup\<close>

lemma fold_update_notin:
  "k \<notin> fst ` set kvs \<Longrightarrow>
   map_of (fold (\<lambda>(k, v). AList.update k v) kvs al) k = map_of al k"
  by (induction kvs arbitrary: al) (auto simp: update_conv')

lemma fold_update_distinct:
  "distinct (map fst kvs) \<Longrightarrow> (k, v) \<in> set kvs \<Longrightarrow>
   map_of (fold (\<lambda>(k, v). AList.update k v) kvs al) k = Some v"
proof (induction kvs arbitrary: al)
  case Nil
  then show ?case by simp
next
  case (Cons kv rest)
  obtain k' v' where kv: "kv = (k', v')" by (cases kv)
  show ?case
  proof (cases "(k, v) = (k', v')")
    case True
    with Cons.prems kv have "k \<notin> fst ` set rest" by auto
    from fold_update_notin [OF this] True kv show ?thesis
      by (simp add: update_conv')
  next
    case False
    with Cons.prems kv have "(k, v) \<in> set rest" and "distinct (map fst rest)" by auto
    from Cons.IH [OF this(2) this(1)] kv show ?thesis by simp
  qed
qed

lemma nested_fold_update:
  "fold (\<lambda>(li, lik) m.
           fold (\<lambda>(si, sev) m'. AList.update (K lik sev) (V li si) m') S m) L m0
   = fold (\<lambda>(k, v). AList.update k v)
       (concat (map (\<lambda>(li, lik). map (\<lambda>(si, sev). (K lik sev, V li si)) S) L)) m0"
proof (induction L arbitrary: m0)
  case Nil
  then show ?case by simp
next
  case (Cons p L)
  obtain li lik where p: "p = (li, lik)" by (cases p)
  have inner: "fold (\<lambda>(si, sev) m'. AList.update (K lik sev) (V li si) m') S m
                 = fold (\<lambda>(k, v). AList.update k v) (map (\<lambda>(si, sev). (K lik sev, V li si)) S) m"
    for m
    by (simp add: fold_map comp_def split_def)
  show ?case
    using Cons.IH by (simp add: p inner)
qed

lemma matrix_updateRiskMatrix:
  "matrix (updateRiskMatrix rm) = fold (\<lambda>(k, v). AList.update k v) (assignments rm) []"
  by (simp add: updateRiskMatrix_def assignments_def nested_fold_update)

lemma map_split_snd: "map (\<lambda>(i, x). f x) (enumerate n xs) = map f xs"
  by (induction xs arbitrary: n) simp_all

lemma assignments_keys: "map fst (assignments rm) = matrixKeys rm"
proof -
  have "map fst (assignments rm)
          = concat (map (\<lambda>(li, lik). map (\<lambda>(si, sev). matrixKey (lik_id lik) (sev_id sev))
                                         (enumerate 0 (severity rm)))
                        (enumerate 0 (likelihood rm)))"
    by (simp add: assignments_def map_concat comp_def split_def)
  also have "\<dots> = concat (map (\<lambda>(li, lik). map (\<lambda>sev. matrixKey (lik_id lik) (sev_id sev)) (severity rm))
                        (enumerate 0 (likelihood rm)))"
    by (simp add: map_split_snd)
  also have "\<dots> = matrixKeys rm"
    by (simp add: matrixKeys_def map_split_snd)
  finally show ?thesis .
qed

lemma assignments_member:
  assumes "li < length (likelihood rm)" and "si < length (severity rm)"
  shows "(matrixKey (lik_id (likelihood rm ! li)) (sev_id (severity rm ! si)), defaultLevel rm li si)
           \<in> set (assignments rm)"
proof -
  have l: "(li, likelihood rm ! li) \<in> set (enumerate 0 (likelihood rm))"
    using assms(1) by (simp add: in_set_enumerate_eq)
  have s: "(si, severity rm ! si) \<in> set (enumerate 0 (severity rm))"
    using assms(2) by (simp add: in_set_enumerate_eq)
  show ?thesis
    unfolding assignments_def set_concat set_map
    using l s by force
qed

lemma updateRiskMatrix_cell:
  assumes "li < length (likelihood rm)" and "si < length (severity rm)"
    and "distinct (matrixKeys rm)"
  shows "map_of (matrix (updateRiskMatrix rm))
           (matrixKey (lik_id (likelihood rm ! li)) (sev_id (severity rm ! si)))
         = Some (defaultLevel rm li si)"
  using fold_update_distinct [OF _ assignments_member [OF assms(1,2)], of "[]"] assms(3)
  by (simp add: matrix_updateRiskMatrix assignments_keys)

lemma defaultLevel_rule:
  assumes "li < length (likelihood rm)" and "si < length (severity rm)"
  shows "defaultLevel rm li si
         = (let denom = (int (length (likelihood rm)) - 1) + (int (length (severity rm)) - 1);
                ratio = (of_nat li + of_nat si) / (of_int denom :: rat);
                ordinal = (if denom \<noteq> 0 \<and> 7 / 10 \<le> ratio then 2
                           else if denom \<noteq> 0 \<and> 4 / 10 \<le> ratio then 1 else 0)
            in arrayAt (riskLevels rm) ordinal)"
proof (cases "maxSum rm = 0")
  case True
  with assms have "li = 0" and "si = 0" by (auto simp: maxSum_def)
  with True show ?thesis
    by (simp add: defaultLevel_def riskRatio_def jsDivide_def maxSum_def Let_def)
next
  case False
  then show ?thesis
    by (simp add: defaultLevel_def riskRatio_def jsDivide_def maxSum_def Let_def)
qed

text \<open>
  Claim C10. With exactly one likelihood level and one severity level, the ratio is
  0 / 0 = NaN, it passes neither threshold test, and regeneration yields the matrix with
  the single cell holding the risk level at ordinal 0.
\<close>

theorem C10_single_cell:
  "length (likelihood rm) = 1 \<and> length (severity rm) = 1 \<longrightarrow>
     riskRatio rm 0 0 = NaN
     \<and> \<not> jsGe (riskRatio rm 0 0) (7 / 10)
     \<and> \<not> jsGe (riskRatio rm 0 0) (4 / 10)
     \<and> matrix (updateRiskMatrix rm)
         = [(matrixKey (lik_id (likelihood rm ! 0)) (sev_id (severity rm ! 0)),
             arrayAt (riskLevels rm) 0)]"
proof
  assume a: "length (likelihood rm) = 1 \<and> length (severity rm) = 1"
  then obtain lik where l: "likelihood rm = [lik]" by (cases "likelihood rm") auto
  from a obtain sev where s: "severity rm = [sev]" by (cases "severity rm") auto
  have r: "riskRatio rm 0 0 = NaN"
    by (simp add: riskRatio_def jsDivide_def maxSum_def l s)
  have m: "matrix (updateRiskMatrix rm)
         = [(matrixKey (lik_id (likelihood rm ! 0)) (sev_id (severity rm ! 0)),
             arrayAt (riskLevels rm) 0)]"
    using r by (simp add: updateRiskMatrix_def defaultLevel_def l s)
  from r m show "riskRatio rm 0 0 = NaN
     \<and> \<not> jsGe (riskRatio rm 0 0) (7 / 10)
     \<and> \<not> jsGe (riskRatio rm 0 0) (4 / 10)
     \<and> matrix (updateRiskMatrix rm)
         = [(matrixKey (lik_id (likelihood rm ! 0)) (sev_id (severity rm ! 0)),
             arrayAt (riskLevels rm) 0)]"
    by simp
qed

theorem C10_single_cell_witness:
  "length (likelihood singleCellMatrix) = 1 \<and> length (severity singleCellMatrix) = 1
   \<and> riskRatio singleCellMatrix 0 0 = NaN
   \<and> matrix (updateRiskMatrix singleCellMatrix)
       = [(''A-1'', Some \<lparr>rl_id = ''low'', rl_label = ''Low'', rl_color = ''#28a745''\<rparr>)]"
  using C10_single_cell [of singleCellMatrix]
  by (simp add: singleCellMatrix_def defaultRiskMatrix_def matrixKey_def arrayAt_def)

text \<open>
  Claim C9. When the severity level or the likelihood level is unset (undefined or the
  empty string), or the matrix has no cell for the pair (no such key, or a cell holding
  undefined), the risk score label, the risk colour and the summary's risk level are all
  the empty string. The three functions have no failing branch.
\<close>

theorem C9_unresolved_is_empty:
  "\<not> truthy severityLvl \<or> \<not> truthy likelihoodLvl
   \<or> map_of (matrix rm) (matrixKey (orEmpty likelihoodLvl) (orEmpty severityLvl)) = None
   \<or> map_of (matrix rm) (matrixKey (orEmpty likelihoodLvl) (orEmpty severityLvl)) = Some None
   \<longrightarrow> computeRiskScore rm severityLvl likelihoodLvl = []
       \<and> getRiskLevelColor rm severityLvl likelihoodLvl = []
       \<and> getRiskLevel rm severityLvl likelihoodLvl = []"
  by (auto simp: computeRiskScore_def getRiskLevelColor_def getRiskLevel_def)

theorem C9_unresolved_is_empty_witness:
  "\<not> truthy None
   \<and> computeRiskScore (updateRiskMatrix defaultRiskMatrix) None (Some ''D'') = []
   \<and> getRiskLevelColor (updateRiskMatrix defaultRiskMatrix) None (Some ''D'') = []
   \<and> truthy (Some ''9'') \<and> truthy (Some ''Z'')
   \<and> map_of (matrix (updateRiskMatrix defaultRiskMatrix)) (matrixKey ''Z'' ''9'') = None
   \<and> computeRiskScore (updateRiskMatrix defaultRiskMatrix) (Some ''9'') (Some ''Z'') = []
   \<and> getRiskLevelColor (updateRiskMatrix defaultRiskMatrix) (Some ''9'') (Some ''Z'') = []"
proof -
  have unmapped: "map_of (matrix (updateRiskMatrix defaultRiskMatrix)) (matrixKey ''Z'' ''9'') = None"
    by (simp add: matrix_updateRiskMatrix fold_update_notin assignments_keys matrixKeys_def
        defaultRiskMatrix_def matrixKey_def flip: set_map)
  show ?thesis
    using C9_unresolved_is_empty [of None "Some ''D''" "updateRiskMatrix defaultRiskMatrix"]
          C9_unresolved_is_empty [of "Some ''9''" "Some ''Z''" "updateRiskMatrix defaultRiskMatrix"]
          unmapped
    by simp
qed

section \<open>Facts about export and import of the risk matrix\<close>

lemma update_fresh: "k \<notin> fst ` set al \<Longrightarrow> AList.update k v al = al @ [(k, v)]"
  by (induction al) auto

lemma fold_cond_update:
  "distinct (map fst kvs) \<Longrightarrow> fst ` set al \<inter> fst ` set kvs = {} \<Longrightarrow>
   fold (\<lambda>(k, i) m. case h k i of Some v \<Rightarrow> AList.update k v m | None \<Rightarrow> m) kvs al
     = al @ List.map_filter (\<lambda>(k, i). map_option (Pair k) (h k i)) kvs"
proof (induction kvs arbitrary: al)
  case Nil
  then show ?case by simp
next
  case (Cons p rest)
  obtain k i where p: "p = (k, i)" by (cases p)
  from Cons.prems p have d: "distinct (map fst rest)" and knr: "k \<notin> fst ` set rest"
    and kna: "k \<notin> fst ` set al" and disj: "fst ` set al \<inter> fst ` set rest = {}"
    by auto
  show ?case
  proof (cases "h k i")
    case None
    with Cons.IH [OF d disj] p show ?thesis by simp
  next
    case (Some v)
    have disj': "fst ` set (al @ [(k, v)]) \<inter> fst ` set rest = {}"
      using disj knr by auto
    from Cons.IH [OF d disj'] p Some kna show ?thesis
      by (simp add: update_fresh)
  qed
qed

lemma fromEntries_distinct: "distinct (map fst es) \<Longrightarrow> fromEntries es = es"
proof -
  assume d: "distinct (map fst es)"
  have "fold (\<lambda>(k, i) m. case Some i of Some v \<Rightarrow> AList.update k v m | None \<Rightarrow> m) es []
          = [] @ List.map_filter (\<lambda>(k, i). map_option (Pair k) (Some i)) es"
    by (rule fold_cond_update [OF d, where h = "\<lambda>k i. Some i"]) simp
  moreover have "List.map_filter (\<lambda>(k, i). map_option (Pair k) (Some i)) es = es"
    by (induction es) auto
  ultimately show ?thesis by (simp add: fromEntries_def)
qed

lemma exportEntries_Inr:
  "exportEntries m = Inr es \<Longrightarrow>
   es = map (\<lambda>(k, v). (k, rl_id (the v))) m \<and> (\<forall>(k, v) \<in> set m. v \<noteq> None)"
proof (induction m arbitrary: es)
  case Nil
  then show ?case by simp
next
  case (Cons p rest)
  obtain k v where p: "p = (k, v)" by (cases p)
  from Cons.prems p obtain rl es' where v: "v = Some rl" and r: "exportEntries rest = Inr es'"
    and es: "es = (k, rl_id rl) # es'"
    by (auto split: option.splits sum.splits)
  from Cons.IH [OF r] p v es show ?case by simp
qed

lemma find_distinct_id:
  "distinct (map f xs) \<Longrightarrow> x \<in> set xs \<Longrightarrow> find (\<lambda>y. f y = f x) xs = Some x"
  by (induction xs) (auto simp: image_iff)

lemma copy_riskLevels [simp]:
  "map (\<lambda>r. \<lparr>rl_id = rl_id r, rl_label = rl_label r, rl_color = rl_color r\<rparr>) rs = rs"
  by (induction rs) simp_all

lemma copy_likelihood [simp]:
  "map (\<lambda>l. \<lparr>lik_id = lik_id l, lik_label = lik_label l, lik_description = lik_description l\<rparr>) ls
     = ls"
  by (induction ls) simp_all

lemma load_levels:
  "riskLevels (loadRiskMatrixFromJSON d rm)
     = (case doc_riskLevelDescriptions d of Some rs \<Rightarrow> rs | None \<Rightarrow> riskLevels rm)"
  by (simp add: loadRiskMatrixFromJSON_def updateRiskMatrix_def Let_def split: option.splits)

lemma load_matrix_fold:
  assumes "doc_matrix d = Some entries"
  shows "matrix (loadRiskMatrixFromJSON d rm)
           = fold (\<lambda>(key, riskLevelId) m.
                     (case find (\<lambda>r. rl_id r = riskLevelId)
                             (case doc_riskLevelDescriptions d of
                                Some rs \<Rightarrow> rs | None \<Rightarrow> riskLevels rm) of
                        Some riskLevel \<Rightarrow> jsAssign key (Some riskLevel) m
                      | None \<Rightarrow> m)) entries []"
  using assms
  by (simp add: loadRiskMatrixFromJSON_def Let_def split: option.splits)

lemma load_matrix_entries:
  assumes "doc_matrix d = Some entries" and "distinct (map fst entries)"
  shows "matrix (loadRiskMatrixFromJSON d rm)
           = List.map_filter
               (\<lambda>(key, riskLevelId).
                  if key = ''__proto__'' then None
                  else map_option (\<lambda>r. (key, Some r))
                         (find (\<lambda>r. rl_id r = riskLevelId)
                            (case doc_riskLevelDescriptions d of
                               Some rs \<Rightarrow> rs | None \<Rightarrow> riskLevels rm)))
               entries"
proof -
  define levels where
    "levels = (case doc_riskLevelDescriptions d of Some rs \<Rightarrow> rs | None \<Rightarrow> riskLevels rm)"
  define h where
    "h = (\<lambda>k i. if k = ''__proto__'' then None
                 else map_option Some (find (\<lambda>r. rl_id r = i) levels))"
  have step: "(\<lambda>(key, riskLevelId) m.
                 (case find (\<lambda>r. rl_id r = riskLevelId) levels of
                    Some riskLevel \<Rightarrow> jsAssign key (Some riskLevel) m
                  | None \<Rightarrow> m))
              = (\<lambda>(k, i) m. case h k i of Some v \<Rightarrow> AList.update k v m | None \<Rightarrow> m)"
    by (auto simp: fun_eq_iff h_def jsAssign_def split: option.splits)
  have a: "fold (\<lambda>(k, i) m. case h k i of Some v \<Rightarrow> AList.update k v m | None \<Rightarrow> m) entries []
          = [] @ List.map_filter (\<lambda>(k, i). map_option (Pair k) (h k i)) entries"
    by (rule fold_cond_update [OF assms(2)]) simp
  have b: "(\<lambda>(k, i). map_option (Pair k) (h k i))
             = (\<lambda>(key, riskLevelId).
                  if key = ''__proto__'' then None
                  else map_option (\<lambda>r. (key, Some r))
                         (find (\<lambda>r. rl_id r = riskLevelId) levels))"
    by (auto simp: fun_eq_iff h_def option.map_comp comp_def)
  have "matrix (loadRiskMatrixFromJSON d rm)
          = fold (\<lambda>(k, i) m. case h k i of Some v \<Rightarrow> AList.update k v m | None \<Rightarrow> m) entries []"
    using load_matrix_fold [OF assms(1), of rm] by (simp only: levels_def [symmetric] step)
  also have "\<dots> = List.map_filter (\<lambda>(k, i). map_option (Pair k) (h k i)) entries"
    using a by simp
  also have "\<dots> = List.map_filter
                       (\<lambda>(key, riskLevelId).
                          if key = ''__proto__'' then None
                          else map_option (\<lambda>r. (key, Some r))
                                 (find (\<lambda>r. rl_id r = riskLevelId) levels)) entries"
    by (simp only: b)
  finally show ?thesis
    unfolding levels_def .
qed

lemma resolve_exported_ids:
  assumes "distinct (map rl_id levels)"
    and "\<forall>(k, v) \<in> set m. k \<noteq> ''__proto__'' \<and> (\<exists>r. v = Some r \<and> r \<in> set levels)"
  shows "List.map_filter
           (\<lambda>(key, riskLevelId).
              if key = ''__proto__'' then None
              else map_option (\<lambda>r. (key, Some r)) (find (\<lambda>r. rl_id r = riskLevelId) levels))
           (map (\<lambda>(k, v). (k, rl_id (the v))) m)
         = m"
  using assms(2)
proof (induction m)
  case Nil
  then show ?case by simp
next
  case (Cons p rest)
  obtain k v where p: "p = (k, v)" by (cases p)
  from Cons.prems p obtain r where v: "v = Some r" and r: "r \<in> set levels"
    and k: "k \<noteq> ''__proto__''" by auto
  have f: "find (\<lambda>y. rl_id y = rl_id r) levels = Some r"
    by (rule find_distinct_id [OF assms(1) r])
  from Cons.prems
  have "\<forall>(k, v) \<in> set rest. k \<noteq> ''__proto__'' \<and> (\<exists>r. v = Some r \<and> r \<in> set levels)"
    by simp
  from Cons.IH [OF this] show ?case by (simp add: p v f k)
qed

lemma roundtrip_matrix:
  assumes ex: "exportRiskMatrix rm = Inr doc"
    and keys: "distinct (map fst (matrix rm))"
    and proto: "''__proto__'' \<notin> fst ` set (matrix rm)"
    and ids: "distinct (map rl_id (riskLevels rm))"
    and mem: "\<forall>(k, v) \<in> set (matrix rm). \<forall>r. v = Some r \<longrightarrow> r \<in> set (riskLevels rm)"
  shows "matrix (loadRiskMatrixFromJSON doc rm') = matrix rm"
proof -
  from ex obtain es where es: "exportEntries (matrix rm) = Inr es"
    and doc: "doc_matrix doc = Some (fromEntries es)"
             "doc_riskLevelDescriptions doc = Some (riskLevels rm)"
    by (auto simp: exportRiskMatrix_def split: sum.splits)
  from exportEntries_Inr [OF es]
  have esmap: "es = map (\<lambda>(k, v). (k, rl_id (the v))) (matrix rm)"
    and defined: "\<forall>(k, v) \<in> set (matrix rm). v \<noteq> None"
    by simp_all
  have eskeys: "map fst es = map fst (matrix rm)"
    by (simp add: esmap comp_def split_def)
  with keys have d: "distinct (map fst es)" by simp
  then have fe: "fromEntries es = es" by (rule fromEntries_distinct)
  have dm: "doc_matrix doc = Some es" using doc(1) fe by simp
  have lm: "matrix (loadRiskMatrixFromJSON doc rm')
          = List.map_filter
              (\<lambda>(key, riskLevelId).
                 if key = ''__proto__'' then None
                 else map_option (\<lambda>r. (key, Some r))
                        (find (\<lambda>r. rl_id r = riskLevelId) (riskLevels rm))) es"
    by (rule load_matrix_entries [OF dm d, of rm', unfolded doc(2) option.case])
  have all: "\<forall>(k, v) \<in> set (matrix rm).
            k \<noteq> ''__proto__'' \<and> (\<exists>r. v = Some r \<and> r \<in> set (riskLevels rm))"
  proof (clarify, intro conjI)
    fix k v assume kv: "(k, v) \<in> set (matrix rm)"
    then show "k \<noteq> ''__proto__''" using proto by (metis fst_conv image_eqI)
    from kv defined obtain r where v: "v = Some r" by (cases v) auto
    with kv mem have "r \<in> set (riskLevels rm)" by blast
    with v show "\<exists>r. v = Some r \<and> r \<in> set (riskLevels rm)" by simp
  qed
  have "List.map_filter
              (\<lambda>(key, riskLevelId).
                 if key = ''__proto__'' then None
                 else map_option (\<lambda>r. (key, Some r))
                        (find (\<lambda>r. rl_id r = riskLevelId) (riskLevels rm))) es = matrix rm"
    unfolding esmap by (rule resolve_exported_ids [OF ids all])
  with lm show ?thesis by simp
qed

lemma load_without_matrix:
  "doc_matrix d = None \<Longrightarrow>
   loadRiskMatrixFromJSON d rm
     = updateRiskMatrix
         (rm\<lparr>likelihood := (case doc_likelihoodDescriptions d of Some ls \<Rightarrow> ls | None \<Rightarrow> likelihood rm),
             severityDescriptions :=
               (case doc_severityDescriptions d of Some sd \<Rightarrow> sd | None \<Rightarrow> severityDescriptions rm),
             riskLevels :=
               (case doc_riskLevelDescriptions d of Some rs \<Rightarrow> rs | None \<Rightarrow> riskLevels rm)\<rparr>)"
  by (simp add: loadRiskMatrixFromJSON_def Let_def split: option.splits)

lemma update_entry_cases:
  "(k, v) \<in> set (AList.update k' v' al) \<Longrightarrow> (k, v) = (k', v') \<or> (k, v) \<in> set al"
  by (induction al) (auto split: if_splits)

lemma fold_update_entries:
  "(k, v) \<in> set (fold (\<lambda>(k, v). AList.update k v) kvs al) \<Longrightarrow>
   (k, v) \<in> set kvs \<or> (k, v) \<in> set al"
proof (induction kvs arbitrary: al)
  case Nil
  then show ?case by simp
next
  case (Cons p rest)
  obtain k' v' where p: "p = (k', v')" by (cases p)
  from Cons.prems p have "(k, v) \<in> set (fold (\<lambda>(k, v). AList.update k v) rest (AList.update k' v' al))"
    by simp
  from Cons.IH [OF this] p show ?case
    by (auto dest: update_entry_cases)
qed

lemma fold_update_distinct_keys:
  "distinct (map fst al) \<Longrightarrow> distinct (map fst (fold (\<lambda>(k, v). AList.update k v) kvs al))"
  by (induction kvs arbitrary: al) (auto simp: distinct_update)

lemma defaultLevel_in_levels: "defaultLevel rm li si = Some r \<Longrightarrow> r \<in> set (riskLevels rm)"
  by (auto simp: defaultLevel_def arrayAt_def split: if_splits)

lemma matrixKey_not_proto: "matrixKey a b \<noteq> ''__proto__''"
proof
  assume "matrixKey a b = ''__proto__''"
  then have "set (matrixKey a b) = set ''__proto__''" by simp
  moreover have "CHR ''-'' \<in> set (matrixKey a b)" by (simp add: matrixKey_def)
  ultimately show False by simp
qed

lemma updateRiskMatrix_wellformed: "wellformedMatrix (updateRiskMatrix rm)"
proof -
  have d: "distinct (map fst (matrix (updateRiskMatrix rm)))"
    by (simp add: matrix_updateRiskMatrix fold_update_distinct_keys)
  have rl: "riskLevels (updateRiskMatrix rm) = riskLevels rm"
    by (simp add: updateRiskMatrix_def)
  have inA: "(k, v) \<in> set (assignments rm)"
    if "(k, v) \<in> set (matrix (updateRiskMatrix rm))" for k v
    using that fold_update_entries [of k v "assignments rm" "[]"]
    by (simp add: matrix_updateRiskMatrix)
  have np: "''__proto__'' \<notin> fst ` set (matrix (updateRiskMatrix rm))"
  proof
    assume "''__proto__'' \<in> fst ` set (matrix (updateRiskMatrix rm))"
    then obtain v where "(''__proto__'', v) \<in> set (matrix (updateRiskMatrix rm))" by auto
    then have "(''__proto__'', v) \<in> set (assignments rm)" by (rule inA)
    then show False
      by (auto simp: assignments_def matrixKey_not_proto [THEN not_sym])
  qed
  have lv: "r \<in> set (riskLevels rm)"
    if "(k, Some r) \<in> set (matrix (updateRiskMatrix rm))" for k r
  proof -
    from that have "(k, Some r) \<in> set (assignments rm)" by (rule inA)
    then obtain li si where "defaultLevel rm li si = Some r"
      by (auto simp: assignments_def)
    then show ?thesis by (rule defaultLevel_in_levels)
  qed
  from d np lv show ?thesis
    unfolding wellformedMatrix_def by (auto simp: rl)
qed

lemma jsAssign_entry_cases:
  "(k, v) \<in> set (jsAssign k' v' al) \<Longrightarrow>
   ((k, v) = (k', v') \<and> k' \<noteq> ''__proto__'') \<or> (k, v) \<in> set al"
  by (auto simp: jsAssign_def dest: update_entry_cases split: if_splits)

lemma fold_jsAssign_wellformed:
  "distinct (map fst al) \<Longrightarrow> ''__proto__'' \<notin> fst ` set al \<Longrightarrow>
   (\<forall>(k, v) \<in> set al. \<forall>r. v = Some r \<longrightarrow> r \<in> set levels) \<Longrightarrow>
   distinct (map fst (fold (\<lambda>(key, riskLevelId) m.
                              (case find (\<lambda>r. rl_id r = riskLevelId) levels of
                                 Some riskLevel \<Rightarrow> jsAssign key (Some riskLevel) m
                               | None \<Rightarrow> m)) entries al))
   \<and> ''__proto__'' \<notin> fst ` set (fold (\<lambda>(key, riskLevelId) m.
                              (case find (\<lambda>r. rl_id r = riskLevelId) levels of
                                 Some riskLevel \<Rightarrow> jsAssign key (Some riskLevel) m
                               | None \<Rightarrow> m)) entries al)
   \<and> (\<forall>(k, v) \<in> set (fold (\<lambda>(key, riskLevelId) m.
                              (case find (\<lambda>r. rl_id r = riskLevelId) levels of
                                 Some riskLevel \<Rightarrow> jsAssign key (Some riskLevel) m
                               | None \<Rightarrow> m)) entries al).
         \<forall>r. v = Some r \<longrightarrow> r \<in> set levels)"
proof (induction entries arbitrary: al)
  case Nil
  then show ?case by simp
next
  case (Cons p rest)
  obtain key i where p: "p = (key, i)" by (cases p)
  show ?case
  proof (cases "find (\<lambda>r. rl_id r = i) levels")
    case None
    with Cons.IH [OF Cons.prems] p show ?thesis by simp
  next
    case (Some r)
    then have rin: "r \<in> set levels"
      by (auto simp: find_Some_iff)
    have d: "distinct (map fst (jsAssign key (Some r) al))"
      using Cons.prems(1) by (simp add: jsAssign_def distinct_update)
    have n: "''__proto__'' \<notin> fst ` set (jsAssign key (Some r) al)"
      using Cons.prems(2) by (auto dest!: jsAssign_entry_cases)
    have w: "\<forall>(k, v) \<in> set (jsAssign key (Some r) al). \<forall>r. v = Some r \<longrightarrow> r \<in> set levels"
      using Cons.prems(3) rin by (auto dest!: jsAssign_entry_cases)
    from Cons.IH [OF d n w] p Some show ?thesis by simp
  qed
qed

lemma loadRiskMatrixFromJSON_wellformed: "wellformedMatrix (loadRiskMatrixFromJSON d rm)"
proof (cases "doc_matrix d")
  case None
  then show ?thesis
    using load_without_matrix [OF None, of rm] updateRiskMatrix_wellformed by simp
next
  case (Some entries)
  show ?thesis
    unfolding wellformedMatrix_def load_levels load_matrix_fold [OF Some]
    using fold_jsAssign_wellformed
            [of "[]" "case doc_riskLevelDescriptions d of Some rs \<Rightarrow> rs | None \<Rightarrow> riskLevels rm"
               entries]
    by simp
qed

text \<open>
  Claim C6, as the code has it. Take a state whose matrix was produced by regeneration
  or by an import, as every matrix of the running application is, with pairwise distinct
  risk-level ids. If the export of its configuration produces a document, importing that
  document into any state reproduces the matrix: the same keys, in the same order, with
  the same risk level in every cell. On import of a document with a matrix, every entry
  whose risk-level id resolves against the risk levels then in force (the document's own
  list when it carries one) becomes a cell holding the resolved level, except an entry
  under the key \<open>__proto__\<close>; that entry and every entry whose id does not resolve are
  dropped. On import of a document without a matrix, the matrix is regenerated by the
  default rule from the lists as they stand after the import.
\<close>

theorem C6_export_import:
  "((rm = updateRiskMatrix rm0 \<or> rm = loadRiskMatrixFromJSON d0 rm0)
      \<and> exportRiskMatrix rm = Inr doc \<and> distinct (map rl_id (riskLevels rm))
    \<longrightarrow> matrix (loadRiskMatrixFromJSON doc rm') = matrix rm)
   \<and> (doc_matrix d = Some entries \<and> distinct (map fst entries)
    \<longrightarrow> matrix (loadRiskMatrixFromJSON d rm')
          = List.map_filter
              (\<lambda>(key, riskLevelId).
                 if key = ''__proto__'' then None
                 else map_option (\<lambda>r. (key, Some r))
                        (find (\<lambda>r. rl_id r = riskLevelId)
                           (case doc_riskLevelDescriptions d of
                              Some rs \<Rightarrow> rs | None \<Rightarrow> riskLevels rm')))
              entries)
   \<and> (doc_matrix d = None
    \<longrightarrow> loadRiskMatrixFromJSON d rm'
          = updateRiskMatrix
              (rm'\<lparr>likelihood :=
                      (case doc_likelihoodDescriptions d of
                         Some ls \<Rightarrow> ls | None \<Rightarrow> likelihood rm'),
                    severityDescriptions :=
                      (case doc_severityDescriptions d of
                         Some sd \<Rightarrow> sd | None \<Rightarrow> severityDescriptions rm'),
                    riskLevels :=
                      (case doc_riskLevelDescriptions d of
                         Some rs \<Rightarrow> rs | None \<Rightarrow> riskLevels rm')\<rparr>))"
proof (intro conjI impI)
  assume a: "(rm = updateRiskMatrix rm0 \<or> rm = loadRiskMatrixFromJSON d0 rm0)
      \<and> exportRiskMatrix rm = Inr doc \<and> distinct (map rl_id (riskLevels rm))"
  then have "wellformedMatrix rm"
    using updateRiskMatrix_wellformed [of rm0] loadRiskMatrixFromJSON_wellformed [of d0 rm0]
    by blast
  then have wf: "distinct (map fst (matrix rm))" "''__proto__'' \<notin> fst ` set (matrix rm)"
    "\<forall>(k, v) \<in> set (matrix rm). \<forall>r. v = Some r \<longrightarrow> r \<in> set (riskLevels rm)"
    unfolding wellformedMatrix_def by blast+
  from a have ex: "exportRiskMatrix rm = Inr doc" and ids: "distinct (map rl_id (riskLevels rm))"
    by blast+
  show "matrix (loadRiskMatrixFromJSON doc rm') = matrix rm"
    by (rule roundtrip_matrix [OF ex wf(1) wf(2) ids wf(3)])
next
  assume "doc_matrix d = Some entries \<and> distinct (map fst entries)"
  then show "matrix (loadRiskMatrixFromJSON d rm')
          = List.map_filter
              (\<lambda>(key, riskLevelId).
                 if key = ''__proto__'' then None
                 else map_option (\<lambda>r. (key, Some r))
                        (find (\<lambda>r. rl_id r = riskLevelId)
                           (case doc_riskLevelDescriptions d of
                              Some rs \<Rightarrow> rs | None \<Rightarrow> riskLevels rm')))
              entries"
    using load_matrix_entries [of d entries rm'] by blast
next
  assume "doc_matrix d = None"
  then show "loadRiskMatrixFromJSON d rm'
          = updateRiskMatrix
              (rm'\<lparr>likelihood :=
                      (case doc_likelihoodDescriptions d of
                         Some ls \<Rightarrow> ls | None \<Rightarrow> likelihood rm'),
                    severityDescriptions :=
                      (case doc_severityDescriptions d of
                         Some sd \<Rightarrow> sd | None \<Rightarrow> severityDescriptions rm'),
                    riskLevels :=
                      (case doc_riskLevelDescriptions d of
                         Some rs \<Rightarrow> rs | None \<Rightarrow> riskLevels rm')\<rparr>)"
    by (rule load_without_matrix)
qed

lemma small_matrix_cells:
  "matrix (updateRiskMatrix (smallMatrix\<lparr>riskLevels := levels\<rparr>))
     = [(''A-1'', arrayAt levels 0), (''A-2'', arrayAt levels 1),
        (''B-1'', arrayAt levels 1), (''B-2'', arrayAt levels 2)]"
  by (simp add: updateRiskMatrix_def smallMatrix_def defaultRiskMatrix_def matrixKey_def
      defaultLevel_def riskRatio_def jsDivide_def maxSum_def)

lemma small_matrix_default_levels:
  "smallMatrix\<lparr>riskLevels := riskLevels defaultRiskMatrix\<rparr> = smallMatrix"
  by (simp add: smallMatrix_def)

theorem C6_export_import_witness:
  "distinct (map rl_id (riskLevels (updateRiskMatrix smallMatrix)))
   \<and> doc_matrix (projr (exportRiskMatrix (updateRiskMatrix smallMatrix)))
       = Some [(''A-1'', ''low''), (''A-2'', ''medium''), (''B-1'', ''medium''), (''B-2'', ''high'')]
   \<and> matrix (loadRiskMatrixFromJSON (projr (exportRiskMatrix (updateRiskMatrix smallMatrix)))
               defaultRiskMatrix)
       = matrix (updateRiskMatrix smallMatrix)
   \<and> matrix (updateRiskMatrix smallMatrix)
       = [(''A-1'', Some \<lparr>rl_id = ''low'', rl_label = ''Low'', rl_color = ''#28a745''\<rparr>),
          (''A-2'', Some \<lparr>rl_id = ''medium'', rl_label = ''Medium'', rl_color = ''#ffc107''\<rparr>),
          (''B-1'', Some \<lparr>rl_id = ''medium'', rl_label = ''Medium'', rl_color = ''#ffc107''\<rparr>),
          (''B-2'', Some \<lparr>rl_id = ''high'', rl_label = ''High'', rl_color = ''#dc3545''\<rparr>)]
   \<and> doc_matrix danglingDoc = Some [(''A-1'', ''low''), (''A-2'', ''extreme''), (''B-1'', ''high'')]
   \<and> matrix (loadRiskMatrixFromJSON danglingDoc smallMatrix)
       = [(''A-1'', Some \<lparr>rl_id = ''low'', rl_label = ''Low'', rl_color = ''#28a745''\<rparr>),
          (''B-1'', Some \<lparr>rl_id = ''high'', rl_label = ''High'', rl_color = ''#dc3545''\<rparr>)]
   \<and> doc_matrix protoDoc = Some [(''__proto__'', ''low''), (''A-1'', ''high'')]
   \<and> matrix (loadRiskMatrixFromJSON protoDoc smallMatrix)
       = [(''A-1'', Some \<lparr>rl_id = ''high'', rl_label = ''High'', rl_color = ''#dc3545''\<rparr>)]
   \<and> doc_matrix matrixlessDoc = None
   \<and> loadRiskMatrixFromJSON matrixlessDoc smallMatrix = updateRiskMatrix smallMatrix"
proof -
  have m: "matrix (updateRiskMatrix smallMatrix)
             = [(''A-1'', Some \<lparr>rl_id = ''low'', rl_label = ''Low'', rl_color = ''#28a745''\<rparr>),
                (''A-2'', Some \<lparr>rl_id = ''medium'', rl_label = ''Medium'', rl_color = ''#ffc107''\<rparr>),
                (''B-1'', Some \<lparr>rl_id = ''medium'', rl_label = ''Medium'', rl_color = ''#ffc107''\<rparr>),
                (''B-2'', Some \<lparr>rl_id = ''high'', rl_label = ''High'', rl_color = ''#dc3545''\<rparr>)]"
  proof -
    have "matrix (updateRiskMatrix smallMatrix)
            = [(''A-1'', arrayAt (riskLevels defaultRiskMatrix) 0),
               (''A-2'', arrayAt (riskLevels defaultRiskMatrix) 1),
               (''B-1'', arrayAt (riskLevels defaultRiskMatrix) 1),
               (''B-2'', arrayAt (riskLevels defaultRiskMatrix) 2)]"
      using small_matrix_cells [of "riskLevels defaultRiskMatrix"]
      by (simp only: small_matrix_default_levels)
    then show ?thesis
      by (simp add: arrayAt_def defaultRiskMatrix_def)
  qed
  have rl: "riskLevels (updateRiskMatrix smallMatrix)
              = [\<lparr>rl_id = ''low'', rl_label = ''Low'', rl_color = ''#28a745''\<rparr>,
                 \<lparr>rl_id = ''medium'', rl_label = ''Medium'', rl_color = ''#ffc107''\<rparr>,
                 \<lparr>rl_id = ''high'', rl_label = ''High'', rl_color = ''#dc3545''\<rparr>]"
    by (simp add: updateRiskMatrix_def smallMatrix_def defaultRiskMatrix_def)
  have sl: "riskLevels smallMatrix
              = [\<lparr>rl_id = ''low'', rl_label = ''Low'', rl_color = ''#28a745''\<rparr>,
                 \<lparr>rl_id = ''medium'', rl_label = ''Medium'', rl_color = ''#ffc107''\<rparr>,
                 \<lparr>rl_id = ''high'', rl_label = ''High'', rl_color = ''#dc3545''\<rparr>]"
    by (simp add: smallMatrix_def defaultRiskMatrix_def)
  have ex: "exportRiskMatrix (updateRiskMatrix smallMatrix)
              = Inr (projr (exportRiskMatrix (updateRiskMatrix smallMatrix)))"
    by (simp add: exportRiskMatrix_def m)
  have dm: "doc_matrix (projr (exportRiskMatrix (updateRiskMatrix smallMatrix)))
       = Some [(''A-1'', ''low''), (''A-2'', ''medium''), (''B-1'', ''medium''), (''B-2'', ''high'')]"
    by (simp add: exportRiskMatrix_def m fromEntries_def)
  have part1: "matrix (loadRiskMatrixFromJSON (projr (exportRiskMatrix (updateRiskMatrix smallMatrix)))
                 defaultRiskMatrix)
               = matrix (updateRiskMatrix smallMatrix)"
    using C6_export_import
            [where rm = "updateRiskMatrix smallMatrix" and rm0 = smallMatrix
               and doc = "projr (exportRiskMatrix (updateRiskMatrix smallMatrix))"
               and rm' = defaultRiskMatrix, THEN conjunct1]
          ex
    by (simp add: rl)
  have part2: "matrix (loadRiskMatrixFromJSON danglingDoc smallMatrix)
       = [(''A-1'', Some \<lparr>rl_id = ''low'', rl_label = ''Low'', rl_color = ''#28a745''\<rparr>),
          (''B-1'', Some \<lparr>rl_id = ''high'', rl_label = ''High'', rl_color = ''#dc3545''\<rparr>)]"
    using C6_export_import
            [where rm' = smallMatrix and d = danglingDoc
               and entries = "[(''A-1'', ''low''), (''A-2'', ''extreme''), (''B-1'', ''high'')]",
             THEN conjunct2, THEN conjunct1]
    by (simp add: danglingDoc_def)
  have part2': "matrix (loadRiskMatrixFromJSON protoDoc smallMatrix)
       = [(''A-1'', Some \<lparr>rl_id = ''high'', rl_label = ''High'', rl_color = ''#dc3545''\<rparr>)]"
    using C6_export_import
            [where rm' = smallMatrix and d = protoDoc
               and entries = "[(''__proto__'', ''low''), (''A-1'', ''high'')]",
             THEN conjunct2, THEN conjunct1]
    by (simp add: protoDoc_def sl)
  have part3: "loadRiskMatrixFromJSON matrixlessDoc smallMatrix = updateRiskMatrix smallMatrix"
    using C6_export_import
            [where rm' = smallMatrix and d = matrixlessDoc, THEN conjunct2, THEN conjunct2]
    by (simp add: matrixlessDoc_def)
  show ?thesis
    using part1 part2 part2' part3 dm m
    by (simp add: rl danglingDoc_def protoDoc_def matrixlessDoc_def)
qed

text \<open>
  The round trip of claim C6 as it is stated, for every configuration, fails. With three
  risk levels that share the id x, the regenerated two-by-two matrix holds High in cell
  B-2, the export succeeds and writes x for every cell, and the import resolves x to the
  first level, so the re-imported matrix holds Low in B-2. With only two risk levels,
  the regenerated matrix holds undefined in B-2 and the export throws instead of
  producing a document.
\<close>

theorem C6_roundtrip_counterexample:
  "exportRiskMatrix (updateRiskMatrix sharedIdMatrix)
     = Inr (projr (exportRiskMatrix (updateRiskMatrix sharedIdMatrix)))
   \<and> doc_matrix (projr (exportRiskMatrix (updateRiskMatrix sharedIdMatrix)))
       = Some [(''A-1'', ''x''), (''A-2'', ''x''), (''B-1'', ''x''), (''B-2'', ''x'')]
   \<and> map_of (matrix (updateRiskMatrix sharedIdMatrix)) ''B-2''
       = Some (Some \<lparr>rl_id = ''x'', rl_label = ''High'', rl_color = ''#dc3545''\<rparr>)
   \<and> map_of (matrix (loadRiskMatrixFromJSON
                        (projr (exportRiskMatrix (updateRiskMatrix sharedIdMatrix)))
                        (updateRiskMatrix sharedIdMatrix))) ''B-2''
       = Some (Some \<lparr>rl_id = ''x'', rl_label = ''Low'', rl_color = ''#28a745''\<rparr>)
   \<and> matrix (loadRiskMatrixFromJSON
                (projr (exportRiskMatrix (updateRiskMatrix sharedIdMatrix)))
                (updateRiskMatrix sharedIdMatrix))
       \<noteq> matrix (updateRiskMatrix sharedIdMatrix)
   \<and> map_of (matrix (updateRiskMatrix twoLevelMatrix)) ''B-2'' = Some None
   \<and> exportRiskMatrix (updateRiskMatrix twoLevelMatrix) = Inl TypeError"
proof -
  have m: "matrix (updateRiskMatrix sharedIdMatrix)
             = [(''A-1'', Some \<lparr>rl_id = ''x'', rl_label = ''Low'', rl_color = ''#28a745''\<rparr>),
                (''A-2'', Some \<lparr>rl_id = ''x'', rl_label = ''Medium'', rl_color = ''#ffc107''\<rparr>),
                (''B-1'', Some \<lparr>rl_id = ''x'', rl_label = ''Medium'', rl_color = ''#ffc107''\<rparr>),
                (''B-2'', Some \<lparr>rl_id = ''x'', rl_label = ''High'', rl_color = ''#dc3545''\<rparr>)]"
    by (simp add: sharedIdMatrix_def small_matrix_cells arrayAt_def)
  have rl: "riskLevels (updateRiskMatrix sharedIdMatrix)
              = [\<lparr>rl_id = ''x'', rl_label = ''Low'', rl_color = ''#28a745''\<rparr>,
                 \<lparr>rl_id = ''x'', rl_label = ''Medium'', rl_color = ''#ffc107''\<rparr>,
                 \<lparr>rl_id = ''x'', rl_label = ''High'', rl_color = ''#dc3545''\<rparr>]"
    by (simp add: updateRiskMatrix_def sharedIdMatrix_def)
  have ex: "exportRiskMatrix (updateRiskMatrix sharedIdMatrix)
              = Inr (projr (exportRiskMatrix (updateRiskMatrix sharedIdMatrix)))"
    by (simp add: exportRiskMatrix_def m)
  have dm: "doc_matrix (projr (exportRiskMatrix (updateRiskMatrix sharedIdMatrix)))
       = Some [(''A-1'', ''x''), (''A-2'', ''x''), (''B-1'', ''x''), (''B-2'', ''x'')]"
    by (simp add: exportRiskMatrix_def m fromEntries_def)
  have dl: "doc_riskLevelDescriptions (projr (exportRiskMatrix (updateRiskMatrix sharedIdMatrix)))
       = Some (riskLevels (updateRiskMatrix sharedIdMatrix))"
    by (simp add: exportRiskMatrix_def m)
  have reimported: "matrix (loadRiskMatrixFromJSON
                (projr (exportRiskMatrix (updateRiskMatrix sharedIdMatrix)))
                (updateRiskMatrix sharedIdMatrix))
       = [(''A-1'', Some \<lparr>rl_id = ''x'', rl_label = ''Low'', rl_color = ''#28a745''\<rparr>),
          (''A-2'', Some \<lparr>rl_id = ''x'', rl_label = ''Low'', rl_color = ''#28a745''\<rparr>),
          (''B-1'', Some \<lparr>rl_id = ''x'', rl_label = ''Low'', rl_color = ''#28a745''\<rparr>),
          (''B-2'', Some \<lparr>rl_id = ''x'', rl_label = ''Low'', rl_color = ''#28a745''\<rparr>)]"
    using load_matrix_entries [OF dm, of "updateRiskMatrix sharedIdMatrix"]
    by (simp add: dl rl)
  have m2: "matrix (updateRiskMatrix twoLevelMatrix)
             = [(''A-1'', Some \<lparr>rl_id = ''low'', rl_label = ''Low'', rl_color = ''#28a745''\<rparr>),
                (''A-2'', Some \<lparr>rl_id = ''high'', rl_label = ''High'', rl_color = ''#dc3545''\<rparr>),
                (''B-1'', Some \<lparr>rl_id = ''high'', rl_label = ''High'', rl_color = ''#dc3545''\<rparr>),
                (''B-2'', None)]"
    by (simp add: twoLevelMatrix_def small_matrix_cells arrayAt_def)
  have ex2: "exportRiskMatrix (updateRiskMatrix twoLevelMatrix) = Inl TypeError"
    by (simp add: exportRiskMatrix_def m2)
  show ?thesis
    using ex dm ex2 by (simp add: m reimported m2)
qed

section \<open>The default rule, assignment by assignment\<close>

lemma nth_concat_map_uniform:
  "i < length xs \<Longrightarrow> j < n \<Longrightarrow> (\<forall>x \<in> set xs. length (f x) = n) \<Longrightarrow>
   concat (map f xs) ! (i * n + j) = f (xs ! i) ! j"
proof (induction xs arbitrary: i)
  case Nil
  then show ?case by simp
next
  case (Cons x xs)
  show ?case
  proof (cases i)
    case 0
    with Cons.prems show ?thesis by (simp add: nth_append)
  next
    case (Suc i')
    with Cons.prems have i': "i' < length xs" and u: "\<forall>x \<in> set xs. length (f x) = n"
      and lx: "length (f x) = n"
      by auto
    have "concat (map f (x # xs)) ! (i * n + j) = concat (map f xs) ! (i' * n + j)"
      using Suc lx by (simp add: nth_append)
    with Cons.IH [OF i' Cons.prems(2) u] Suc show ?thesis by simp
  qed
qed

lemma assignments_length:
  "length (assignments rm) = length (likelihood rm) * length (severity rm)"
  using arg_cong [OF assignments_keys [of rm], of length]
  by (simp add: matrixKeys_def length_concat comp_def sum_list_triv split_def)

lemma assignments_nth:
  assumes li: "li < length (likelihood rm)" and si: "si < length (severity rm)"
  shows "assignments rm ! (li * length (severity rm) + si)
           = (matrixKey (lik_id (likelihood rm ! li)) (sev_id (severity rm ! si)),
              defaultLevel rm li si)"
proof -
  let ?f = "\<lambda>(li, lik). map (\<lambda>(si, sev). (matrixKey (lik_id lik) (sev_id sev), defaultLevel rm li si))
                               (enumerate 0 (severity rm))"
  have u: "\<forall>x \<in> set (enumerate 0 (likelihood rm)). length (?f x) = length (severity rm)"
    by (auto simp: split_def)
  have "assignments rm ! (li * length (severity rm) + si)
          = ?f (enumerate 0 (likelihood rm) ! li) ! si"
    unfolding assignments_def
    by (rule nth_concat_map_uniform [OF _ si u]) (simp add: li)
  also have "\<dots> = (matrixKey (lik_id (likelihood rm ! li)) (sev_id (severity rm ! si)),
                     defaultLevel rm li si)"
    using li si by (simp add: nth_enumerate_eq)
  finally show ?thesis .
qed

text \<open>
  Claim C5. Regeneration runs one assignment \<open>matrix[key] = riskLevel\<close> per
  (likelihood, severity) pair, likelihood-major. The assignment for likelihood index
  \<open>li\<close> and severity index \<open>si\<close> writes, under the key
  likelihoodId-severityId, the risk level at ordinal 2 when
  (li + si) / ((likelihoodCount - 1) + (severityCount - 1)) is at least 0.7, the level at
  ordinal 1 when it is at least 0.4, and the level at ordinal 0 otherwise (a ratio with
  denominator 0 passes neither test). When no two pairs share a key, that level is what
  the regenerated matrix holds in the pair's cell. On the default 5x5 lists, severity
  level 3 with likelihood level D has ratio 5/8 and resolves to the level medium, label
  Medium.
\<close>

theorem C5_default_rule:
  "matrix (updateRiskMatrix rm) = fold (\<lambda>(key, riskLevel). AList.update key riskLevel) (assignments rm) []
   \<and> length (assignments rm) = length (likelihood rm) * length (severity rm)
   \<and> (li < length (likelihood rm) \<and> si < length (severity rm) \<longrightarrow>
        (let denom = (int (length (likelihood rm)) - 1) + (int (length (severity rm)) - 1);
             ratio = (of_nat li + of_nat si) / (of_int denom :: rat);
             ordinal = (if denom \<noteq> 0 \<and> 7 / 10 \<le> ratio then 2
                        else if denom \<noteq> 0 \<and> 4 / 10 \<le> ratio then 1 else 0);
             key = matrixKey (lik_id (likelihood rm ! li)) (sev_id (severity rm ! si))
         in assignments rm ! (li * length (severity rm) + si) = (key, arrayAt (riskLevels rm) ordinal)
            \<and> (distinct (matrixKeys rm) \<longrightarrow>
                 map_of (matrix (updateRiskMatrix rm)) key = Some (arrayAt (riskLevels rm) ordinal))))
   \<and> riskRatio defaultRiskMatrix 3 2 = Finite (5 / 8)
   \<and> map_of (matrix (updateRiskMatrix defaultRiskMatrix)) (matrixKey ''D'' ''3'')
       = Some (Some \<lparr>rl_id = ''medium'', rl_label = ''Medium'', rl_color = ''#ffc107''\<rparr>)
   \<and> computeRiskScore (updateRiskMatrix defaultRiskMatrix) (Some ''3'') (Some ''D'') = ''Medium''"
proof (intro conjI impI)
  show "matrix (updateRiskMatrix rm)
          = fold (\<lambda>(key, riskLevel). AList.update key riskLevel) (assignments rm) []"
    by (rule matrix_updateRiskMatrix)
next
  show "length (assignments rm) = length (likelihood rm) * length (severity rm)"
    by (rule assignments_length)
next
  assume a: "li < length (likelihood rm) \<and> si < length (severity rm)"
  then show "let denom = (int (length (likelihood rm)) - 1) + (int (length (severity rm)) - 1);
             ratio = (of_nat li + of_nat si) / (of_int denom :: rat);
             ordinal = (if denom \<noteq> 0 \<and> 7 / 10 \<le> ratio then 2
                        else if denom \<noteq> 0 \<and> 4 / 10 \<le> ratio then 1 else 0);
             key = matrixKey (lik_id (likelihood rm ! li)) (sev_id (severity rm ! si))
         in assignments rm ! (li * length (severity rm) + si) = (key, arrayAt (riskLevels rm) ordinal)
            \<and> (distinct (matrixKeys rm) \<longrightarrow>
                 map_of (matrix (updateRiskMatrix rm)) key = Some (arrayAt (riskLevels rm) ordinal))"
    using updateRiskMatrix_cell [of li rm si] defaultLevel_rule [of li rm si]
          assignments_nth [of li rm si]
    by (simp add: Let_def)
next
  show "riskRatio defaultRiskMatrix 3 2 = Finite (5 / 8)"
    by (simp add: riskRatio_def jsDivide_def maxSum_def defaultRiskMatrix_def)
next
  have d: "distinct (matrixKeys defaultRiskMatrix)"
    by (simp add: matrixKeys_def defaultRiskMatrix_def matrixKey_def)
  have l: "3 < length (likelihood defaultRiskMatrix)" and s: "2 < length (severity defaultRiskMatrix)"
    by (simp_all add: defaultRiskMatrix_def)
  have lv: "defaultLevel defaultRiskMatrix 3 2
              = Some \<lparr>rl_id = ''medium'', rl_label = ''Medium'', rl_color = ''#ffc107''\<rparr>"
    by (simp add: defaultLevel_def riskRatio_def jsDivide_def maxSum_def arrayAt_def
        defaultRiskMatrix_def)
  have ids: "lik_id (likelihood defaultRiskMatrix ! 3) = ''D''"
            "sev_id (severity defaultRiskMatrix ! 2) = ''3''"
    by (simp_all add: defaultRiskMatrix_def)
  show cell: "map_of (matrix (updateRiskMatrix defaultRiskMatrix)) (matrixKey ''D'' ''3'')
       = Some (Some \<lparr>rl_id = ''medium'', rl_label = ''Medium'', rl_color = ''#ffc107''\<rparr>)"
    using updateRiskMatrix_cell [OF l s d] by (simp only: lv ids)
  show "computeRiskScore (updateRiskMatrix defaultRiskMatrix) (Some ''3'') (Some ''D'') = ''Medium''"
    by (simp add: computeRiskScore_def cell)
qed

theorem C5_default_rule_witness:
  "3 < length (likelihood defaultRiskMatrix) \<and> 2 < length (severity defaultRiskMatrix)
   \<and> distinct (matrixKeys defaultRiskMatrix)
   \<and> assignments defaultRiskMatrix ! (3 * length (severity defaultRiskMatrix) + 2)
       = (matrixKey ''D'' ''3'', arrayAt (riskLevels defaultRiskMatrix) 1)
   \<and> map_of (matrix (updateRiskMatrix defaultRiskMatrix)) (matrixKey ''D'' ''3'')
      = Some (arrayAt (riskLevels defaultRiskMatrix) 1)"
  using C5_default_rule [of defaultRiskMatrix 3 2, THEN conjunct2, THEN conjunct2, THEN conjunct1]
  by (simp add: matrixKeys_def defaultRiskMatrix_def matrixKey_def Let_def)

section \<open>The export's Risk column against the evaluator\<close>




lemma unset_levels_score [simp]:
  "computeRiskScore rm None l = []" "computeRiskScore rm (Some []) l = []"
  "getRiskLevelColor rm None l = []" "getRiskLevelColor rm (Some []) l = []"
  by (simp_all add: computeRiskScore_def getRiskLevelColor_def)

lemma consMeasureCount_render [simp]:
  "consMeasureCount (renderConsequence rm cons) = consMeasureCount cons"
  by (cases cons) (simp_all add: renderRiskField_def Let_def split: option.splits)

lemma causeMeasureCount_render [simp]:
  "causeMeasureCount (renderCause cause) = causeMeasureCount cause"
  by (cases cause) (simp_all split: option.splits)














section \<open>Saving, loading and initialisation\<close>

lemma persist_save_never_throws: "\<exists>storage'. persist_save payload storage = Inr storage'"
  by (simp add: persist_save_def split: sum.splits)

lemma persist_load_is_array: "\<exists>hs. persist_load storage = SavedArray hs"
  by (simp add: persist_load_def jsonParse_def split: option.splits StoredText.splits Saved.splits)

lemma persist_load_after_document:
  "\<not> quotaExceeded storage \<Longrightarrow>
   persist_save (SavedDocument d) storage = Inr (storage\<lparr>item := Some (JsonText (SavedDocument d))\<rparr>)
   \<and> persist_load (storage\<lparr>item := Some (JsonText (SavedDocument d))\<rparr>) = SavedArray []"
  by (simp add: persist_save_def setItem_def persist_load_def jsonParse_def)

text \<open>
  Claim C7 says that loading after saving the document returns the document and that
  initialisation restores it. Saving never throws, but \<open>persist.load\<close> returns an
  array in every case, and the empty array for a stored document: after the working
  state is saved into an empty storage, loading gives \<open>[]\<close>, and initialisation ends
  with the starter hazard and the default matrix instead of the saved hazard and the
  saved matrix, although \<open>init\<close>'s own branch for a document would have restored
  exactly the saved state.
\<close>

theorem C7_saved_document_not_restored:
  "(\<exists>storage'. persist_save payload storage = Inr storage')
   \<and> (\<exists>hs. persist_load storage = SavedArray hs)
   \<and> scheduleSave workingState emptyStorage
       = Inr \<lparr>item = Some (JsonText (stateDocument workingState)), quotaExceeded = False\<rparr>
   \<and> persist_load \<lparr>item = Some (JsonText (stateDocument workingState)), quotaExceeded = False\<rparr>
       = SavedArray []
   \<and> st_hazards (init \<lparr>item = Some (JsonText (stateDocument workingState)), quotaExceeded = False\<rparr>
                    ''i1'' ''i2'' ''i3'' ''i4'' initialState)
       = [starterHazard ''i1'' ''i2'' ''i3'' ''i4'']
   \<and> st_hazards workingState = [scenarioHazard]
   \<and> st_riskMatrix (init \<lparr>item = Some (JsonText (stateDocument workingState)), quotaExceeded = False\<rparr>
                    ''i1'' ''i2'' ''i3'' ''i4'' initialState)
       = updateRiskMatrix defaultRiskMatrix
   \<and> st_riskMatrix workingState = updateRiskMatrix smallMatrix
   \<and> restoreSaved (stateDocument workingState) initialState = workingState"
proof -
  have save: "scheduleSave workingState emptyStorage
       = Inr \<lparr>item = Some (JsonText (stateDocument workingState)), quotaExceeded = False\<rparr>"
    by (simp add: scheduleSave_def workingState_def initialState_def emptyStorage_def
        persist_save_def setItem_def)
  have load: "persist_load \<lparr>item = Some (JsonText (stateDocument workingState)), quotaExceeded = False\<rparr>
       = SavedArray []"
    by (simp add: persist_load_def jsonParse_def stateDocument_def)
  have starter: "renderHazard rm (starterHazard ''i1'' ''i2'' ''i3'' ''i4'')
                   = starterHazard ''i1'' ''i2'' ''i3'' ''i4''" for rm
    by (simp add: renderHazard_def starterHazard_def renderRiskField_def blankRisk_def
        computeRiskScore_def)
  have hz: "st_hazards (init \<lparr>item = Some (JsonText (stateDocument workingState)), quotaExceeded = False\<rparr>
                    ''i1'' ''i2'' ''i3'' ''i4'' initialState)
       = [starterHazard ''i1'' ''i2'' ''i3'' ''i4'']"
    by (simp add: init_def load restoreSaved_def initialState_def Let_def rerender_def
        renderTable_def starter)
  have rm: "st_riskMatrix (init \<lparr>item = Some (JsonText (stateDocument workingState)), quotaExceeded = False\<rparr>
                    ''i1'' ''i2'' ''i3'' ''i4'' initialState)
       = updateRiskMatrix defaultRiskMatrix"
    by (simp add: init_def load restoreSaved_def initialState_def Let_def rerender_def)
  have w1: "st_hazards workingState = [scenarioHazard]"
    and w2: "st_riskMatrix workingState = updateRiskMatrix smallMatrix"
    by (simp_all add: workingState_def)
  have restore: "restoreSaved (stateDocument workingState) initialState = workingState"
    by (simp add: restoreSaved_def stateDocument_def workingState_def initialState_def Let_def)
  from persist_save_never_throws [of payload storage] persist_load_is_array [of storage]
    save load hz rm w1 w2 restore
  show ?thesis by blast
qed

end
